theory Spec2Isabelle
  imports Main "HOL-Library.Word"
begin

section \<open>JavaScript values\<close>

text \<open>
  The agent of \<^verbatim>\<open>index.ts\<close> handles values typed \<^verbatim>\<open>any\<close>: what a tool returns or
  throws, what a tool is called with, what \<^verbatim>\<open>JSON.parse\<close> yields. The values of the model
  are these:
  \<^item> \<^verbatim>\<open>undefined\<close>, \<^verbatim>\<open>null\<close>, the Booleans;
  \<^item> the numbers that are integers from \<open>- 2^53\<close> to \<open>2^53 - 1\<close>, as signed words of 54 bits,
    read with \<open>sint\<close>: JavaScript holds each of them exactly and prints it in full. Other
    numbers (fractions, larger integers, the negative zero, \<^verbatim>\<open>NaN\<close>, the infinities) are not
    in the model; a numeral outside the range denotes the word that it wraps to;
  \<^item> the BigInts;
  \<^item> the strings of code units below 256, as lists of 8-bit characters;
  \<^item> the arrays of such values;
  \<^item> the plain objects (prototype \<^verbatim>\<open>Object.prototype\<close>) whose properties are own, enumerable
    data properties with string keys and such values, as the list of the properties in
    property order.
\<close>

datatype jsval =
    JUndefined
  | JNull
  | JBool bool
  | JNum "54 word"
  | JBigInt int
  | JStr string
  | JArr "jsval list"
  | JObj "(string \<times> jsval) list"

text \<open>
  The decimal digits of an integer that is not negative, the text \<^verbatim>\<open>String(i)\<close> for an
  array index, and the text that JavaScript prints for an integer of the model or a
  BigInt.
\<close>

definition digit_char :: "int \<Rightarrow> char" where
  "digit_char d = char_of (48 + d)"

function decimal_digits :: "int \<Rightarrow> string" where
  "decimal_digits i =
     (if i < 10 then [digit_char i] else decimal_digits (i div 10) @ [digit_char (i mod 10)])"
  by pat_completeness auto
termination
  by (relation "measure nat") auto

declare decimal_digits.simps [simp del]

definition decimal :: "nat \<Rightarrow> string" where
  "decimal n = decimal_digits (int n)"

definition decimal_int :: "int \<Rightarrow> string" where
  "decimal_int i = (if i < 0 then ''-'' @ decimal_digits (- i) else decimal_digits i)"

text \<open>
  \<^verbatim>\<open>String(v)\<close>, with \<open>None\<close> where the conversion throws a \<^verbatim>\<open>TypeError\<close>. An array
  prints its elements joined by commas, with \<^verbatim>\<open>null\<close> and \<^verbatim>\<open>undefined\<close> elements printed
  as nothing. A plain object prints as \<^verbatim>\<open>[object Object]\<close> through the method
  \<^verbatim>\<open>toString\<close> that it inherits; when it has a property \<^verbatim>\<open>toString\<close> of its own, that
  property is a value of the model and no function, the inherited \<^verbatim>\<open>valueOf\<close> returns
  the object itself, and the conversion throws.
\<close>

fun js_String :: "jsval \<Rightarrow> string option" and js_join :: "jsval list \<Rightarrow> string option" where
  "js_String JUndefined = Some ''undefined''"
| "js_String JNull = Some ''null''"
| "js_String (JBool b) = Some (if b then ''true'' else ''false'')"
| "js_String (JNum w) = Some (decimal_int (sint w))"
| "js_String (JBigInt i) = Some (decimal_int i)"
| "js_String (JStr s) = Some s"
| "js_String (JArr xs) = js_join xs"
| "js_String (JObj kvs) =
     (if map_of kvs ''toString'' = None then Some ''[object Object]'' else None)"
| "js_join [] = Some []"
| "js_join (x # xs) =
     (case (if x = JNull \<or> x = JUndefined then Some [] else js_String x) of
        None \<Rightarrow> None
      | Some a \<Rightarrow>
          (case js_join xs of
             None \<Rightarrow> None
           | Some b \<Rightarrow> Some (a @ (if xs = [] then [] else '','' @ b))))"

text \<open>
  A value thrown by the code of a tool: an instance of \<^verbatim>\<open>Error\<close> with its \<^verbatim>\<open>message\<close>, or
  a value of the model. \<open>catch_message\<close> is the expression
  \<^verbatim>\<open>error instanceof Error ? error.message : String(error)\<close> of \<^verbatim>\<open>executeTool\<close>, with
  \<open>None\<close> where it throws.
\<close>

datatype thrown = ErrorObject string | Thrown jsval

fun catch_message :: "thrown \<Rightarrow> string option" where
  "catch_message (ErrorObject m) = Some m"
| "catch_message (Thrown v) = js_String v"

section \<open>The platform's JSON\<close>

subsection \<open>\<^verbatim>\<open>JSON.stringify(value, null, 2)\<close>\<close>

text \<open>
  Every call of \<^verbatim>\<open>JSON.stringify\<close> in the agent passes the indentation 2. A string is
  quoted with the escapes of the standard: the quote, the backslash, the five short
  escapes, and \<^verbatim>\<open>\u00xx\<close> for the other code units below 32.
\<close>

definition hex_char :: "nat \<Rightarrow> char" where
  "hex_char d = (if d < 10 then char_of (48 + d) else char_of (87 + d))"

definition escape_char :: "char \<Rightarrow> string" where
  "escape_char c =
     (if c = CHR 0x22 then [CHR 0x5C, CHR 0x22]
      else if c = CHR 0x5C then [CHR 0x5C, CHR 0x5C]
      else if c = CHR 0x08 then [CHR 0x5C, CHR ''b'']
      else if c = CHR 0x0C then [CHR 0x5C, CHR ''f'']
      else if c = CHR 0x0A then [CHR 0x5C, CHR ''n'']
      else if c = CHR 0x0D then [CHR 0x5C, CHR ''r'']
      else if c = CHR 0x09 then [CHR 0x5C, CHR ''t'']
      else if (of_char c :: nat) < 32
        then [CHR 0x5C, CHR ''u'', CHR ''0'', CHR ''0'',
              hex_char (of_char c div 16), hex_char (of_char c mod 16)]
      else [c])"

definition quote :: "string \<Rightarrow> string" where
  "quote s = [CHR 0x22] @ concat (map escape_char s) @ [CHR 0x22]"

text \<open>\<^verbatim>\<open>parts.join(sep)\<close> on strings.\<close>

fun join :: "string \<Rightarrow> string list \<Rightarrow> string" where
  "join sep [] = []"
| "join sep [x] = x"
| "join sep (x # y # ys) = x @ sep @ join sep (y # ys)"

text \<open>
  \<^verbatim>\<open>JSON.stringify\<close> throws a \<^verbatim>\<open>TypeError\<close> on a value that holds a BigInt, and on no
  other value of the model.
\<close>

fun holds_BigInt :: "jsval \<Rightarrow> bool"
  and holds_BigInt_elements :: "jsval list \<Rightarrow> bool"
  and holds_BigInt_members :: "(string \<times> jsval) list \<Rightarrow> bool" where
  "holds_BigInt (JBigInt i) = True"
| "holds_BigInt (JArr xs) = holds_BigInt_elements xs"
| "holds_BigInt (JObj kvs) = holds_BigInt_members kvs"
| "holds_BigInt JUndefined = False"
| "holds_BigInt JNull = False"
| "holds_BigInt (JBool b) = False"
| "holds_BigInt (JNum w) = False"
| "holds_BigInt (JStr s) = False"
| "holds_BigInt_elements [] = False"
| "holds_BigInt_elements (x # xs) = (holds_BigInt x \<or> holds_BigInt_elements xs)"
| "holds_BigInt_members [] = False"
| "holds_BigInt_members ((k, v) # kvs) = (holds_BigInt v \<or> holds_BigInt_members kvs)"

text \<open>
  On the other values, \<open>serialize ind v\<close> is the text of \<open>v\<close> at the indentation \<open>ind\<close>,
  and \<open>None\<close> where \<^verbatim>\<open>JSON.stringify\<close> yields \<^verbatim>\<open>undefined\<close>. An \<^verbatim>\<open>undefined\<close> element of
  an array prints as \<^verbatim>\<open>null\<close>; a property whose value is \<^verbatim>\<open>undefined\<close> is left out. (On
  a value that holds a BigInt the function is not used: its callers test \<open>holds_BigInt\<close>
  first.)
\<close>

fun serialize :: "string \<Rightarrow> jsval \<Rightarrow> string option"
  and serialize_elements :: "string \<Rightarrow> jsval list \<Rightarrow> string list"
  and serialize_members :: "string \<Rightarrow> (string \<times> jsval) list \<Rightarrow> string list" where
  "serialize ind JUndefined = None"
| "serialize ind JNull = Some ''null''"
| "serialize ind (JBool b) = Some (if b then ''true'' else ''false'')"
| "serialize ind (JNum w) = Some (decimal_int (sint w))"
| "serialize ind (JBigInt i) = None"
| "serialize ind (JStr s) = Some (quote s)"
| "serialize ind (JArr xs) =
     (let partial = serialize_elements (ind @ ''  '') xs in
      Some (if partial = [] then ''[]''
            else ''[\<newline>'' @ ind @ ''  '' @ join ('',\<newline>'' @ ind @ ''  '') partial
                 @ ''\<newline>'' @ ind @ '']''))"
| "serialize ind (JObj kvs) =
     (let partial = serialize_members (ind @ ''  '') kvs in
      Some (if partial = [] then ''{}''
            else ''{\<newline>'' @ ind @ ''  '' @ join ('',\<newline>'' @ ind @ ''  '') partial
                 @ ''\<newline>'' @ ind @ ''}''))"
| "serialize_elements ind [] = []"
| "serialize_elements ind (x # xs) =
     (case serialize ind x of None \<Rightarrow> ''null'' | Some s \<Rightarrow> s) # serialize_elements ind xs"
| "serialize_members ind [] = []"
| "serialize_members ind ((k, v) # kvs) =
     (case serialize ind v of None \<Rightarrow> [] | Some s \<Rightarrow> [quote k @ '': '' @ s])
     @ serialize_members ind kvs"

text \<open>\<^verbatim>\<open>JSON.stringify(v, null, 2)\<close> for a value \<open>v\<close> on which it does not throw.\<close>

definition JSON_stringify :: "jsval \<Rightarrow> string option" where
  "JSON_stringify v = serialize [] v"

subsection \<open>\<^verbatim>\<open>JSON.parse\<close>\<close>

text \<open>
  A recursive-descent parser of the JSON grammar. Each parser returns its value and the
  text that follows it, \<open>None\<close> where the text is not of the grammar. A JSON text can
  denote a value that is not in the model: a string with an escape \<^verbatim>\<open>\uXXXX\<close> above
  \<^verbatim>\<open>00FF\<close>, or a number that is no integer from \<open>- 2^53\<close> to \<open>2^53 - 1\<close> written with digits
  only. The parsers take a flag \<open>lax\<close> for that: with \<open>lax = False\<close> they fail on such a
  text as well; with \<open>lax = True\<close> they read it, putting a question mark for the code unit
  and zero for the number, so that they fail on exactly the texts on which \<^verbatim>\<open>JSON.parse\<close>
  throws its \<^verbatim>\<open>SyntaxError\<close>.
\<close>

definition is_ws :: "char \<Rightarrow> bool" where
  "is_ws c = (c = CHR '' '' \<or> c = CHR 0x09 \<or> c = CHR 0x0A \<or> c = CHR 0x0D)"

definition skip_ws :: "string \<Rightarrow> string" where
  "skip_ws s = dropWhile is_ws s"

definition is_digit :: "char \<Rightarrow> bool" where
  "is_digit c = (48 \<le> (of_char c :: nat) \<and> (of_char c :: nat) \<le> 57)"

definition hex_value :: "char \<Rightarrow> nat option" where
  "hex_value c =
     (let n = (of_char c :: nat) in
      if 48 \<le> n \<and> n \<le> 57 then Some (n - 48)
      else if 97 \<le> n \<and> n \<le> 102 then Some (n - 87)
      else if 65 \<le> n \<and> n \<le> 70 then Some (n - 55)
      else None)"

definition unicode_escape :: "bool \<Rightarrow> string \<Rightarrow> char option" where
  "unicode_escape lax hs =
     (case map hex_value hs of
        [Some a, Some b, Some c, Some d] \<Rightarrow>
          (if a = 0 \<and> b = 0 then Some (char_of (16 * c + d))
           else if lax then Some (CHR ''?'')
           else None)
      | _ \<Rightarrow> None)"

definition simple_escape :: "char \<Rightarrow> char option" where
  "simple_escape e =
     (if e = CHR 0x22 then Some (CHR 0x22)
      else if e = CHR 0x5C then Some (CHR 0x5C)
      else if e = CHR ''/'' then Some (CHR ''/'')
      else if e = CHR ''b'' then Some (CHR 0x08)
      else if e = CHR ''f'' then Some (CHR 0x0C)
      else if e = CHR ''n'' then Some (CHR 0x0A)
      else if e = CHR ''r'' then Some (CHR 0x0D)
      else if e = CHR ''t'' then Some (CHR 0x09)
      else None)"

definition cons_char :: "char \<Rightarrow> (string \<times> string) option \<Rightarrow> (string \<times> string) option" where
  "cons_char c r = (case r of None \<Rightarrow> None | Some (s, rest) \<Rightarrow> Some (c # s, rest))"

text \<open>The characters of a string literal, after its opening quote.\<close>

function parse_chars :: "bool \<Rightarrow> string \<Rightarrow> (string \<times> string) option" where
  "parse_chars lax s =
     (case s of
        [] \<Rightarrow> None
      | c # cs \<Rightarrow>
          if c = CHR 0x22 then Some ([], cs)
          else if c = CHR 0x5C then
            (case cs of
               [] \<Rightarrow> None
             | e # es \<Rightarrow>
                 if e = CHR ''u'' then
                   (case unicode_escape lax (take 4 es) of
                      None \<Rightarrow> None
                    | Some u \<Rightarrow> cons_char u (parse_chars lax (drop 4 es)))
                 else
                   (case simple_escape e of
                      None \<Rightarrow> None
                    | Some u \<Rightarrow> cons_char u (parse_chars lax es)))
          else if (of_char c :: nat) < 32 then None
          else cons_char c (parse_chars lax cs))"
  by pat_completeness auto
termination
  by (relation "measure (\<lambda>(lax, s). length s)") auto

declare parse_chars.simps [simp del]

text \<open>
  A number: an optional minus, an integer part with no leading zero, an optional
  fraction, an optional exponent. It is in the model when it has neither fraction nor
  exponent, lies in the range, and is not \<^verbatim>\<open>-0\<close>.
\<close>

definition digits_value :: "string \<Rightarrow> int" where
  "digits_value ds = foldl (\<lambda>a c. 10 * a + (of_char c - 48)) 0 ds"

definition number_int :: "string \<Rightarrow> (bool \<times> string \<times> string) option" where
  "number_int s =
     (let neg = (s \<noteq> [] \<and> hd s = CHR ''-'');
          s1 = (if neg then tl s else s);
          ds = takeWhile is_digit s1
      in if ds = [] \<or> (length ds > 1 \<and> hd ds = CHR ''0'') then None
         else Some (neg, ds, dropWhile is_digit s1))"

definition number_frac :: "string \<Rightarrow> string option" where
  "number_frac s =
     (if s \<noteq> [] \<and> hd s = CHR ''.''
      then (if takeWhile is_digit (tl s) = [] then None else Some (dropWhile is_digit (tl s)))
      else Some s)"

definition number_exp :: "string \<Rightarrow> string option" where
  "number_exp s =
     (if s \<noteq> [] \<and> (hd s = CHR ''e'' \<or> hd s = CHR ''E'')
      then (let s1 = tl s;
                s2 = (if s1 \<noteq> [] \<and> (hd s1 = CHR ''+'' \<or> hd s1 = CHR ''-'') then tl s1 else s1)
            in if takeWhile is_digit s2 = [] then None else Some (dropWhile is_digit s2))
      else Some s)"

definition number_value :: "bool \<Rightarrow> string \<Rightarrow> jsval option" where
  "number_value neg ds =
     (let i = (if neg then - digits_value ds else digits_value ds) in
      if - (2 ^ 53) \<le> i \<and> i < 2 ^ 53 \<and> \<not> (neg \<and> i = 0) then Some (JNum (word_of_int i))
      else None)"

definition parse_number :: "bool \<Rightarrow> string \<Rightarrow> (jsval \<times> string) option" where
  "parse_number lax s =
     (case number_int s of
        None \<Rightarrow> None
      | Some (neg, ds, s2) \<Rightarrow>
          (case number_frac s2 of
             None \<Rightarrow> None
           | Some s3 \<Rightarrow>
               (case number_exp s3 of
                  None \<Rightarrow> None
                | Some s4 \<Rightarrow>
                    (case (if length s4 = length s2 then number_value neg ds else None) of
                       Some v \<Rightarrow> Some (v, s4)
                     | None \<Rightarrow> if lax then Some (JNum 0, s4) else None))))"

text \<open>
  Property order of a JavaScript object: the array indices (canonical decimal numbers
  below \<open>2^32 - 1\<close>) in ascending order, then the other keys in the order of their
  creation. \<open>obj_put\<close> defines a property: an existing one keeps its place.
\<close>

definition is_array_index :: "string \<Rightarrow> bool" where
  "is_array_index k =
     (k \<noteq> [] \<and> list_all is_digit k \<and> (k = ''0'' \<or> hd k \<noteq> CHR ''0'')
      \<and> length k \<le> 10 \<and> digits_value k < 4294967295)"

fun obj_put :: "string \<Rightarrow> 'a \<Rightarrow> (string \<times> 'a) list \<Rightarrow> (string \<times> 'a) list" where
  "obj_put k v [] = [(k, v)]"
| "obj_put k v ((k', v') # ps) =
     (if k' = k then (k, v) # ps
      else if is_array_index k \<and> (\<not> is_array_index k' \<or> digits_value k < digits_value k')
        then (k, v) # (k', v') # ps
      else (k', v') # obj_put k v ps)"

definition obj_of_members :: "(string \<times> jsval) list \<Rightarrow> jsval" where
  "obj_of_members ms = JObj (foldl (\<lambda>ob (k, v). obj_put k v ob) [] ms)"

text \<open>
  Values, the elements of an array after its bracket, the members of an object after
  its brace. The tests \<open>length _ < length s\<close> make the recursion well-founded; they
  always hold (lemmas \<open>parse_elements_unguarded\<close> and \<open>parse_members_unguarded\<close>).
\<close>

function parse_value :: "bool \<Rightarrow> string \<Rightarrow> (jsval \<times> string) option"
  and parse_elements :: "bool \<Rightarrow> string \<Rightarrow> (jsval list \<times> string) option"
  and parse_members :: "bool \<Rightarrow> string \<Rightarrow> ((string \<times> jsval) list \<times> string) option" where
  "parse_value lax s =
     (case skip_ws s of
        [] \<Rightarrow> None
      | c # cs \<Rightarrow>
          if c = CHR ''{'' then
            (case skip_ws cs of
               [] \<Rightarrow> None
             | d # ds \<Rightarrow>
                 if d = CHR ''}'' then Some (JObj [], ds)
                 else (case parse_members lax cs of
                         None \<Rightarrow> None
                       | Some (ms, r) \<Rightarrow> Some (obj_of_members ms, r)))
          else if c = CHR ''['' then
            (case skip_ws cs of
               [] \<Rightarrow> None
             | d # ds \<Rightarrow>
                 if d = CHR '']'' then Some (JArr [], ds)
                 else (case parse_elements lax cs of
                         None \<Rightarrow> None
                       | Some (vs, r) \<Rightarrow> Some (JArr vs, r)))
          else if c = CHR 0x22 then
            (case parse_chars lax cs of None \<Rightarrow> None | Some (str, r) \<Rightarrow> Some (JStr str, r))
          else if take 4 (c # cs) = ''true'' then Some (JBool True, drop 4 (c # cs))
          else if take 5 (c # cs) = ''false'' then Some (JBool False, drop 5 (c # cs))
          else if take 4 (c # cs) = ''null'' then Some (JNull, drop 4 (c # cs))
          else parse_number lax (c # cs))"
| "parse_elements lax s =
     (case parse_value lax s of
        None \<Rightarrow> None
      | Some (v, r) \<Rightarrow>
          (case skip_ws r of
             [] \<Rightarrow> None
           | c # cs \<Rightarrow>
               if c = CHR '']'' then Some ([v], cs)
               else if c = CHR '','' \<and> length cs < length s then
                 (case parse_elements lax cs of
                    None \<Rightarrow> None
                  | Some (vs, r') \<Rightarrow> Some (v # vs, r'))
               else None))"
| "parse_members lax s =
     (case skip_ws s of
        [] \<Rightarrow> None
      | q # s1 \<Rightarrow>
          if q \<noteq> CHR 0x22 then None
          else
            (case parse_chars lax s1 of
               None \<Rightarrow> None
             | Some (k, s2) \<Rightarrow>
                 (case skip_ws s2 of
                    [] \<Rightarrow> None
                  | c # s3 \<Rightarrow>
                      if c \<noteq> CHR '':'' \<or> \<not> length s3 < length s then None
                      else
                        (case parse_value lax s3 of
                           None \<Rightarrow> None
                         | Some (v, s4) \<Rightarrow>
                             (case skip_ws s4 of
                                [] \<Rightarrow> None
                              | d # s5 \<Rightarrow>
                                  if d = CHR ''}'' then Some ([(k, v)], s5)
                                  else if d = CHR '','' \<and> length s5 < length s then
                                    (case parse_members lax s5 of
                                       None \<Rightarrow> None
                                     | Some (ms, r) \<Rightarrow> Some ((k, v) # ms, r))
                                  else None)))))"
  by pat_completeness auto
termination
proof -
  have shorter: "length cs < length s" if "skip_ws s = c # cs" for s c cs
    using that length_dropWhile_le [of is_ws s] by (simp add: skip_ws_def)
  show ?thesis
    by (relation "inv_image (less_than <*lex*> less_than)
          (\<lambda>x. case x of Inl (lax, s) \<Rightarrow> (length s, 0::nat)
                       | Inr (Inl (lax, s)) \<Rightarrow> (length s, 1)
                       | Inr (Inr (lax, s)) \<Rightarrow> (length s, 1))")
      (auto dest: shorter)
qed

declare parse_value.simps [simp del] parse_elements.simps [simp del] parse_members.simps [simp del]

text \<open>One value, with nothing but white space around it.\<close>

definition parse_text :: "bool \<Rightarrow> string \<Rightarrow> jsval option" where
  "parse_text lax s =
     (case parse_value lax s of
        None \<Rightarrow> None
      | Some (v, r) \<Rightarrow> if skip_ws r = [] then Some v else None)"

text \<open>
  \<^verbatim>\<open>JSON.parse(text)\<close>: it throws a \<^verbatim>\<open>SyntaxError\<close>, or it returns a value. \<open>Unrepresented\<close>
  stands for a value that is not in the model.
\<close>

datatype parsed = SyntaxError | Parsed jsval | Unrepresented

definition JSON_parse :: "string \<Rightarrow> parsed" where
  "JSON_parse s =
     (case parse_text False s of
        Some v \<Rightarrow> Parsed v
      | None \<Rightarrow> (case parse_text True s of None \<Rightarrow> SyntaxError | Some v \<Rightarrow> Unrepresented))"

section \<open>The agent's data\<close>

datatype Role = System | User | Assistant

record Message =
  role :: Role
  content :: string

text \<open>
  The interface \<^verbatim>\<open>Tool\<close> declares three string properties. A tool in the list
  \<^verbatim>\<open>this.tools\<close> is an object: one written in the source, with exactly these three
  properties in this order, or one that \<^verbatim>\<open>JSON.parse\<close> made, which may have further
  properties or another order. The field \<open>object\<close> is \<open>None\<close> for the former kind and
  holds the object as it is for the latter (see \<open>js_of_Tool\<close> and \<open>Tool_of_js\<close>).
\<close>

record Tool =
  name :: string
  description :: string
  implementation :: string
  object :: "jsval option"

text \<open>\<^verbatim>\<open>error?: string\<close> is an optional property: \<open>None\<close> when the object has none.\<close>

record ToolResult =
  success :: bool
  result :: jsval
  error :: "string option"

text \<open>An entry of \<^verbatim>\<open>actions\<close> in a Decision, as \<^verbatim>\<open>processUserInput\<close> reads it.\<close>

record Action =
  tool :: string
  args :: "jsval list"

text \<open>
  The state that the methods of \<^verbatim>\<open>AIAgent\<close> work on: the fields \<^verbatim>\<open>history\<close> and
  \<^verbatim>\<open>tools\<close> of the object, the files of the working directory by name, and the prompts
  sent to the completion provider so far, in order.
\<close>

type_synonym files = "string \<rightharpoonup> string"

record state =
  history :: "Message list"
  tools :: "Tool list"
  files :: files
  sent :: "Message list list"

text \<open>
  What a method of the agent throws: a \<^verbatim>\<open>TypeError\<close> of the platform, or the error of
  \<^verbatim>\<open>readFileSync\<close> for a file that does not exist.
\<close>

datatype failure = TypeError | NoSuchFile string

text \<open>
  How a call of a method ends: it returns a value, it raises (an \<^verbatim>\<open>async\<close> method's
  promise is rejected), or the process has exited inside it. The last component is the
  state the call leaves behind. \<open>Unmodelled\<close> marks a run that the model does not follow
  to its end: it met a value typed \<^verbatim>\<open>any\<close> whose shape is not the declared one (see
  \<open>list_field\<close> and the functions after it), or a JSON text that denotes a value which is
  not in the model. What the code does from there is neither stated nor denied.
\<close>

datatype ('a, 's) outcome = Returned 'a 's | Raised failure 's | Exited 's | Unmodelled 's

text \<open>The state a call leaves behind, however it ends.\<close>

fun final_state :: "('a, 's) outcome \<Rightarrow> 's" where
  "final_state (Returned x s) = s"
| "final_state (Raised e s) = s"
| "final_state (Exited s) = s"
| "final_state (Unmodelled s) = s"

text \<open>Sequencing: the second step runs when the first one has returned.\<close>

definition andThen ::
  "('a, 's) outcome \<Rightarrow> ('a \<Rightarrow> 's \<Rightarrow> ('b, 's) outcome) \<Rightarrow> ('b, 's) outcome" where
  "andThen m f =
     (case m of
        Returned x s \<Rightarrow> f x s
      | Raised e s \<Rightarrow> Raised e s
      | Exited s \<Rightarrow> Exited s
      | Unmodelled s \<Rightarrow> Unmodelled s)"

section \<open>The history store\<close>

definition historyFile :: string where
  "historyFile = ''history.json''"

fun role_name :: "Role \<Rightarrow> string" where
  "role_name System = ''system''"
| "role_name User = ''user''"
| "role_name Assistant = ''assistant''"

definition role_of_name :: "string \<Rightarrow> Role option" where
  "role_of_name s =
     (if s = ''system'' then Some System
      else if s = ''user'' then Some User
      else if s = ''assistant'' then Some Assistant
      else None)"

text \<open>A \<^verbatim>\<open>Message\<close> object as a JavaScript value, and back.\<close>

definition js_of_Message :: "Message \<Rightarrow> jsval" where
  "js_of_Message m = JObj [(''role'', JStr (role_name (role m))), (''content'', JStr (content m))]"

definition js_of_history :: "Message list \<Rightarrow> jsval" where
  "js_of_history hs = JArr (map js_of_Message hs)"

fun Message_of_js :: "jsval \<Rightarrow> Message option" where
  "Message_of_js (JObj [(k1, JStr r), (k2, JStr c)]) =
     (if k1 = ''role'' \<and> k2 = ''content''
      then map_option (\<lambda>ro. \<lparr>role = ro, content = c\<rparr>) (role_of_name r)
      else None)"
| "Message_of_js _ = None"

fun Messages_of_js :: "jsval \<Rightarrow> Message list option" where
  "Messages_of_js (JArr xs) = those (map Message_of_js xs)"
| "Messages_of_js _ = None"

text \<open>
  The text that \<^verbatim>\<open>JSON.stringify\<close> gives for a message at an indentation, and for a
  history (lemmas \<open>serialize_Message\<close> and \<open>JSON_stringify_history\<close>).
\<close>

definition Message_text :: "string \<Rightarrow> Message \<Rightarrow> string" where
  "Message_text ind m =
     ''{\<newline>'' @ ind @ ''  '' @ quote ''role'' @ '': '' @ quote (role_name (role m))
     @ '',\<newline>'' @ ind @ ''  '' @ quote ''content'' @ '': '' @ quote (content m)
     @ ''\<newline>'' @ ind @ ''}''"

definition history_text :: "Message list \<Rightarrow> string" where
  "history_text hs =
     (if hs = [] then ''[]''
      else ''[\<newline>  '' @ join '',\<newline>  '' (map (Message_text ''  '') hs) @ ''\<newline>]'')"

text \<open>
  \<^verbatim>\<open>saveHistory\<close>: \<^verbatim>\<open>writeFileSync\<close> replaces the whole file. \<^verbatim>\<open>JSON.stringify\<close> of an
  array is a string (lemma \<open>JSON_stringify_history\<close>), so the second branch is never
  taken.
\<close>

definition saveHistory :: "state \<Rightarrow> state" where
  "saveHistory st =
     (case JSON_stringify (js_of_history (history st)) of
        Some data \<Rightarrow> st\<lparr>files := (files st)(historyFile \<mapsto> data)\<rparr>
      | None \<Rightarrow> st)"

text \<open>
  \<^verbatim>\<open>loadHistory\<close>: a missing file and a text on which \<^verbatim>\<open>JSON.parse\<close> throws both end in
  the \<^verbatim>\<open>catch\<close> block, with the empty history. A file that holds JSON which is no array
  of \<^verbatim>\<open>Message\<close> objects is stored by the code as it is, against the declared type:
  \<open>Unmodelled\<close>.
\<close>

definition loadHistory :: "state \<Rightarrow> (unit, state) outcome" where
  "loadHistory st =
     (case files st historyFile of
        None \<Rightarrow> Returned () (st\<lparr>history := []\<rparr>)
      | Some data \<Rightarrow>
          (case JSON_parse data of
             SyntaxError \<Rightarrow> Returned () (st\<lparr>history := []\<rparr>)
           | Unrepresented \<Rightarrow> Unmodelled st
           | Parsed v \<Rightarrow>
               (case Messages_of_js v of
                  None \<Rightarrow> Unmodelled st
                | Some hs \<Rightarrow> Returned () (st\<lparr>history := hs\<rparr>))))"

section \<open>The dynamic executor\<close>

text \<open>
  The JavaScript engine is a parameter. \<open>eng params body argv fs\<close> stands for
  \<^verbatim>\<open>await new Function(...params, body)(...argv)\<close> run on the files \<open>fs\<close>: \<open>Inl e\<close> when the
  compilation, the call or the awaited promise throws \<open>e\<close>, \<open>Inr v\<close> when the awaited
  value is \<open>v\<close>; with it the files the code leaves. The call is taken as one step. Code
  that never returns, or that ends the process itself, is outside this parameter.
\<close>

type_synonym engine =
  "string list \<Rightarrow> string \<Rightarrow> jsval list \<Rightarrow> files \<Rightarrow> (thrown + jsval) \<times> files"

text \<open>The parameter names \<^verbatim>\<open>args.map((_, i) => `arg${i}`)\<close>.\<close>

definition arg_names :: "jsval list \<Rightarrow> string list" where
  "arg_names argv = map (\<lambda>i. ''arg'' @ decimal i) [0..<length argv]"

text \<open>The function body that \<^verbatim>\<open>executeTool\<close> builds around \<^verbatim>\<open>tool.implementation\<close>.\<close>

definition wrap_implementation :: "string \<Rightarrow> string" where
  "wrap_implementation impl =
     ''\<newline>        try {\<newline>          '' @ impl
     @ ''\<newline>        } catch (error) {\<newline>''
     @ ''          throw new Error(`Tool execution failed: ${error.message}`);\<newline>''
     @ ''        }\<newline>      ''"

definition not_found_message :: "string \<Rightarrow> string" where
  "not_found_message nm = ''Tool '' @ [CHR 0x27] @ nm @ [CHR 0x27] @ '' not found''"

text \<open>
  \<^verbatim>\<open>executeTool(name, args)\<close>: the first tool of that name is looked up; the \<^verbatim>\<open>try\<close>
  block compiles and runs it, the \<^verbatim>\<open>catch\<close> block turns a thrown value into a
  \<^verbatim>\<open>ToolResult\<close>. The conversion \<^verbatim>\<open>String(error)\<close> stands in the \<^verbatim>\<open>catch\<close> block, under no
  \<^verbatim>\<open>try\<close>: where it throws, the call raises.
\<close>

definition executeTool ::
  "engine \<Rightarrow> string \<Rightarrow> jsval list \<Rightarrow> state \<Rightarrow> (ToolResult, state) outcome" where
  "executeTool eng nm argv st =
     (case find (\<lambda>t. name t = nm) (tools st) of
        None \<Rightarrow>
          Returned \<lparr>success = False, result = JNull, error = Some (not_found_message nm)\<rparr> st
      | Some t \<Rightarrow>
          (case eng (arg_names argv) (wrap_implementation (implementation t)) argv (files st) of
             (Inr v, fs') \<Rightarrow>
               Returned \<lparr>success = True, result = v, error = None\<rparr> (st\<lparr>files := fs'\<rparr>)
           | (Inl e, fs') \<Rightarrow>
               (case catch_message e of
                  Some m \<Rightarrow>
                    Returned \<lparr>success = False, result = JNull, error = Some m\<rparr>
                      (st\<lparr>files := fs'\<rparr>)
                | None \<Rightarrow> Raised TypeError (st\<lparr>files := fs'\<rparr>))))"

section \<open>The completion orchestrator\<close>

text \<open>
  The static text of \<^verbatim>\<open>getSystemPrompt\<close>, before and after the tool catalog.
\<close>

definition prompt_head :: string where
  \<open>prompt_head =
     ''You are an AI agent capable of using and generating tools/functions.\<newline>''
     @ ''\<newline>''
     @ ''Available tools:\<newline>''\<close>

definition prompt_tail :: string where
  \<open>prompt_tail =
     ''\<newline>''
     @ ''\<newline>''
     @ ''IMPORTANT: You must ALWAYS respond with a valid JSON object in the following format:\<newline>''
     @ ''{\<newline>''
     @ ''  "reasoning": "string explaining your thought process",\<newline>''
     @ ''  "actions": [\<newline>''
     @ ''    {\<newline>''
     @ ''      "tool": "string (name of the tool to use)",\<newline>''
     @ ''      "args": ["arg1", "arg2"]\<newline>''
     @ ''    }\<newline>''
     @ ''  ],\<newline>''
     @ ''  "newTools": [\<newline>''
     @ ''    {\<newline>''
     @ ''      "name": "string",\<newline>''
     @ ''      "description": "string",\<newline>''
     @ ''      "implementation": "function foo() { return ''
     @ [CHR 0x27]
     @ ''bar''
     @ [CHR 0x27]
     @ ''; }\<newline>''
     @ '' return foo();"\<newline>''
     @ ''    }\<newline>''
     @ ''  ],\<newline>''
     @ ''  "response": "string (your response to the user)"\<newline>''
     @ ''}\<newline>''
     @ ''\<newline>''
     @ ''Rules:\<newline>''
     @ ''1. Your response MUST be a valid JSON object\<newline>''
     @ ''2. All property names must be in quotes\<newline>''
     @ ''3. All string values must be in quotes\<newline>''
     @ ''4. Arrays can be empty but must be present\<newline>''
     @ ''5. Do not include any text before or after the JSON object\<newline>''
     @ ''\<newline>''
     @ ''When generating new tools:\<newline>''
     @ ''1. Each tool should be focused and do one thing well\<newline>''
     @ ''2. Include proper error handling\<newline>''
     @ ''3. Tool implementations should be valid JavaScript code and must return a value (not just a function call)\<newline>''
     @ ''4. Tool implementations MUST ALWAYS end in a return statement\<newline>''
     @ ''5. No, really, make sure you always return a value - the last line of MUST always be a return statement\<newline>''
     @ ''6. Always use modern ESNext syntax\<newline>''
     @ ''7. Never use imports or external libraries\<newline>''
     @ ''8. When using a free API, always actually use the API - don''
     @ [CHR 0x27]
     @ ''t simulate one''\<close>


text \<open>The catalog shows \<^verbatim>\<open>`${tool.name}: ${tool.description}`\<close> per tool, one line each.\<close>

definition getSystemPrompt :: "Tool list \<Rightarrow> string" where
  "getSystemPrompt ts =
     prompt_head @ join ''\<newline>'' (map (\<lambda>t. name t @ '': '' @ description t) ts) @ prompt_tail"

text \<open>
  \<^verbatim>\<open>toolResults\<close> is an object keyed by tool name. An assignment
  \<^verbatim>\<open>toolResults[key] = value\<close> defines the property \<open>key\<close>, except for the key
  \<^verbatim>\<open>__proto__\<close>, which sets the prototype and defines no property.
\<close>

definition record_assign ::
  "string \<Rightarrow> ToolResult \<Rightarrow> (string \<times> ToolResult) list \<Rightarrow> (string \<times> ToolResult) list" where
  "record_assign k r trs = (if k = ''__proto__'' then trs else obj_put k r trs)"

definition js_of_ToolResult :: "ToolResult \<Rightarrow> jsval" where
  "js_of_ToolResult r =
     JObj ([(''success'', JBool (success r)), (''result'', result r)]
           @ (case error r of None \<Rightarrow> [] | Some e \<Rightarrow> [(''error'', JStr e)]))"

definition js_of_toolResults :: "(string \<times> ToolResult) list \<Rightarrow> jsval" where
  "js_of_toolResults trs = JObj (map (\<lambda>(k, r). (k, js_of_ToolResult r)) trs)"

text \<open>
  The content of the trailing system message, \<open>None\<close> where \<^verbatim>\<open>JSON.stringify\<close> throws.
\<close>

definition tool_results_content :: "(string \<times> ToolResult) list \<Rightarrow> string option" where
  "tool_results_content trs =
     (if holds_BigInt (js_of_toolResults trs) then None
      else Some
        (''Tool execution results:\<newline>''
         @ (case JSON_stringify (js_of_toolResults trs) of Some s \<Rightarrow> s | None \<Rightarrow> ''undefined'')
         @ ''\<newline>\<newline>Remember to respond with a valid JSON object as specified in the format above.''))"

text \<open>
  The array \<^verbatim>\<open>messages\<close> that \<^verbatim>\<open>generateResponse\<close> builds, before its \<^verbatim>\<open>try\<close> block;
  \<open>None\<close> where building it throws.
\<close>

definition build_messages ::
  "Tool list \<Rightarrow> Message list \<Rightarrow> string \<Rightarrow> (string \<times> ToolResult) list option
     \<Rightarrow> Message list option" where
  "build_messages ts hs input toolResults =
     (case (case toolResults of
              None \<Rightarrow> Some []
            | Some trs \<Rightarrow>
                map_option (\<lambda>c. [\<lparr>role = System, content = c\<rparr>]) (tool_results_content trs)) of
        None \<Rightarrow> None
      | Some trailing \<Rightarrow>
          Some ([\<lparr>role = System, content = getSystemPrompt ts\<rparr>]
                @ map (\<lambda>msg. \<lparr>role = role msg, content = content msg\<rparr>) hs
                @ [\<lparr>role = User, content = input\<rparr>]
                @ trailing))"

text \<open>
  The completion provider is a parameter: its answer to a prompt, given the number of
  prompts sent before.
  \<^item> \<open>Failure\<close>: the call throws, or its promise is rejected.
  \<^item> \<open>Choices cs\<close>: a completion of the declared type, where \<open>cs\<close> lists the contents of
    the messages of its choices, \<open>None\<close> for \<^verbatim>\<open>null\<close>.
  \<^item> \<open>Shapeless\<close>: an answer that is an object with no \<^verbatim>\<open>choices\<close> (the property is
    \<^verbatim>\<open>undefined\<close> or \<^verbatim>\<open>null\<close>), against the declared type.
\<close>

datatype reply = Failure | Shapeless | Choices "string option list"

type_synonym provider = "nat \<Rightarrow> Message list \<Rightarrow> reply"

text \<open>
  \<^verbatim>\<open>content.replace(/```json\n?|\n?```/g, '')\<close>: at each position, left to right, the
  first alternative that matches is removed: \<^verbatim>\<open>```json\<close> with a newline after it if
  there is one, else a newline followed by three backquotes, else three backquotes.
\<close>

function strip_fences :: "string \<Rightarrow> string" where
  "strip_fences s =
     (if s = [] then []
      else if take 7 s = ''```json'' then
        strip_fences (if take 1 (drop 7 s) = ''\<newline>'' then drop 8 s else drop 7 s)
      else if take 4 s = ''\<newline>```'' then strip_fences (drop 4 s)
      else if take 3 s = ''```'' then strip_fences (drop 3 s)
      else hd s # strip_fences (tl s))"
  by pat_completeness auto
termination
  by (relation "measure length") (auto simp: neq_Nil_conv)

declare strip_fences.simps [simp del]

text \<open>A text in which three backquotes in a row occur nowhere.\<close>

fun fence_free :: "string \<Rightarrow> bool" where
  "fence_free [] = True"
| "fence_free (c # cs) = (take 3 (c # cs) \<noteq> ''```'' \<and> fence_free cs)"

text \<open>
  \<^verbatim>\<open>String.prototype.trim\<close>: white space and line terminators, of which the 8-bit ones
  are the codes 9 to 13, 32 and 160.
\<close>

definition is_js_space :: "char \<Rightarrow> bool" where
  "is_js_space c =
     (let n = (of_char c :: nat) in (9 \<le> n \<and> n \<le> 13) \<or> n = 32 \<or> n = 160)"

definition trim :: "string \<Rightarrow> string" where
  "trim s = rev (dropWhile is_js_space (rev (dropWhile is_js_space s)))"

text \<open>The object returned from the \<^verbatim>\<open>catch\<close> block of \<^verbatim>\<open>generateResponse\<close>.\<close>

definition fallback_decision :: jsval where
  "fallback_decision =
     JObj [(''reasoning'', JStr ''Failed to generate proper response''),
           (''actions'', JArr []),
           (''newTools'', JArr []),
           (''response'', JStr ''Error: Failed to process the request. Please try again.'')]"

text \<open>\<^verbatim>\<open>completion.choices[0].message.content || '{}'\<close>.\<close>

definition content_or_default :: "string option \<Rightarrow> string" where
  "content_or_default c = (case c of None \<Rightarrow> ''{}'' | Some s \<Rightarrow> if s = [] then ''{}'' else s)"

text \<open>
  \<^verbatim>\<open>generateResponse(input, toolResults?)\<close> has one point of suspension, the \<^verbatim>\<open>await\<close> of
  the provider's answer. \<open>send_prompt\<close> is the part before it (lines 175 to 195): the
  prompt is built, which may throw, and sent; the result is the number of the prompt
  among those sent. \<open>read_completion\<close> is the part after it (lines 197 to 212): the
  \<^verbatim>\<open>try\<close> block returns what \<^verbatim>\<open>JSON.parse\<close> yields, the \<^verbatim>\<open>catch\<close> block logs the raw answer
  and returns the fallback. With no first choice, \<^verbatim>\<open>completion.choices[0].message\<close>
  throws inside the \<^verbatim>\<open>try\<close> block. The logging expression
  \<^verbatim>\<open>completion?.choices[0]?.message?.content\<close> of the \<^verbatim>\<open>catch\<close> block throws in its turn when
  \<^verbatim>\<open>choices\<close> is missing.
\<close>

definition send_prompt ::
  "string \<Rightarrow> (string \<times> ToolResult) list option \<Rightarrow> state \<Rightarrow> (nat, state) outcome" where
  "send_prompt input toolResults st =
     (case build_messages (tools st) (history st) input toolResults of
        None \<Rightarrow> Raised TypeError st
      | Some messages \<Rightarrow> Returned (length (sent st)) (st\<lparr>sent := sent st @ [messages]\<rparr>))"

definition read_completion :: "reply \<Rightarrow> state \<Rightarrow> (jsval, state) outcome" where
  "read_completion r st =
     (case r of
        Failure \<Rightarrow> Returned fallback_decision st
      | Shapeless \<Rightarrow> Raised TypeError st
      | Choices cs \<Rightarrow>
          (case cs of
             [] \<Rightarrow> Returned fallback_decision st
           | c # others \<Rightarrow>
               (case JSON_parse (trim (strip_fences (content_or_default c))) of
                  SyntaxError \<Rightarrow> Returned fallback_decision st
                | Parsed v \<Rightarrow> Returned v st
                | Unrepresented \<Rightarrow> Unmodelled st)))"

definition generateResponse ::
  "provider \<Rightarrow> string \<Rightarrow> (string \<times> ToolResult) list option \<Rightarrow> state \<Rightarrow> (jsval, state) outcome" where
  "generateResponse prov input toolResults st =
     andThen (send_prompt input toolResults st)
       (\<lambda>n st'. read_completion (prov n (sent st' ! n)) st')"

section \<open>The self-rewrite coordinator\<close>

text \<open>A tool as the object it is.\<close>

definition js_of_Tool :: "Tool \<Rightarrow> jsval" where
  "js_of_Tool t =
     (case object t of
        None \<Rightarrow>
          JObj [(''name'', JStr (name t)), (''description'', JStr (description t)),
                (''implementation'', JStr (implementation t))]
      | Some v \<Rightarrow> v)"

text \<open>
  The first occurrence of a pattern in a text: what stands before it and what after.
\<close>

fun split_first :: "string \<Rightarrow> string \<Rightarrow> (string \<times> string) option" where
  "split_first p [] = (if p = [] then Some ([], []) else None)"
| "split_first p (c # cs) =
     (if take (length p) (c # cs) = p then Some ([], drop (length p) (c # cs))
      else map_option (\<lambda>(b, a). (c # b, a)) (split_first p cs))"

text \<open>
  The match of \<^verbatim>\<open>/this\.tools = \[([\s\S]*?)\];/\<close>: the first \<^verbatim>\<open>this.tools = [\<close>
  and, the group being lazy, the text up to the first \<^verbatim>\<open>];\<close> after it. The result is
  the text before the match, the group, and the text after the match.
\<close>

definition find_seed :: "string \<Rightarrow> (string \<times> string \<times> string) option" where
  "find_seed s =
     (case split_first ''this.tools = ['' s of
        None \<Rightarrow> None
      | Some (before, r) \<Rightarrow>
          (case split_first ''];'' r of
             None \<Rightarrow> None
           | Some (g, after) \<Rightarrow> Some (before, g, after)))"

text \<open>
  \<^verbatim>\<open>String.prototype.replace\<close> expands the replacement text: \<^verbatim>\<open>$$\<close> is a dollar,
  \<^verbatim>\<open>$&\<close> the match, \<^verbatim>\<open>$`\<close> the text before it, \<^verbatim>\<open>$'\<close> the text after it, and
  \<^verbatim>\<open>$1\<close> or \<^verbatim>\<open>$01\<close> the only group of this pattern; any other character stands for
  itself. The arguments are the match, the text before, the text after, the group and
  the replacement text.
\<close>

function expand_replacement :: "string \<Rightarrow> string \<Rightarrow> string \<Rightarrow> string \<Rightarrow> string \<Rightarrow> string" where
  "expand_replacement m b a g t =
     (if t = [] then []
      else if take 2 t = ''$$'' then CHR ''$'' # expand_replacement m b a g (drop 2 t)
      else if take 2 t = ''$&'' then m @ expand_replacement m b a g (drop 2 t)
      else if take 2 t = ''$`'' then b @ expand_replacement m b a g (drop 2 t)
      else if take 2 t = [CHR ''$'', CHR 0x27] then a @ expand_replacement m b a g (drop 2 t)
      else if take 3 t = ''$01'' then g @ expand_replacement m b a g (drop 3 t)
      else if take 2 t = ''$1'' then g @ expand_replacement m b a g (drop 2 t)
      else hd t # expand_replacement m b a g (tl t))"
  by pat_completeness auto
termination
  by (relation "measure (\<lambda>(m, b, a, g, t). length t)") (auto simp: neq_Nil_conv)

declare expand_replacement.simps [simp del]

text \<open>\<^verbatim>\<open>currentFile.replace(pattern, replacement)\<close>; a text with no match is unchanged.\<close>

definition replace_seed :: "string \<Rightarrow> string \<Rightarrow> string" where
  "replace_seed cur repl =
     (case find_seed cur of
        None \<Rightarrow> cur
      | Some (b, g, a) \<Rightarrow>
          b @ expand_replacement (''this.tools = ['' @ g @ ''];'') b a g repl @ a)"

text \<open>
  The replacement text \<^verbatim>\<open>`this.tools = [\n${toolsSection}\n];`\<close>.
\<close>

definition toolsSection :: "Tool list \<Rightarrow> string" where
  "toolsSection ts =
     join '',\<newline>''
       (map (\<lambda>t. case JSON_stringify (js_of_Tool t) of Some s \<Rightarrow> s | None \<Rightarrow> []) ts)"

definition seed_block :: "Tool list \<Rightarrow> string" where
  "seed_block ts = ''this.tools = [\<newline>'' @ toolsSection ts @ ''\<newline>];''"

definition mainFile :: string where
  "mainFile = ''index.ts''"

text \<open>
  \<^verbatim>\<open>updateTools(newTools)\<close>: the tools are pushed first; then the main file is read,
  which throws when it does not exist; the tools are serialized, which throws when one
  of them holds a BigInt; the seed block is replaced and the file written back.
\<close>

definition updateTools :: "Tool list \<Rightarrow> state \<Rightarrow> (unit, state) outcome" where
  "updateTools nts st =
     (let st1 = st\<lparr>tools := tools st @ nts\<rparr> in
      case files st1 mainFile of
        None \<Rightarrow> Raised (NoSuchFile mainFile) st1
      | Some currentFile \<Rightarrow>
          if list_ex (\<lambda>t. holds_BigInt (js_of_Tool t)) (tools st1) then Raised TypeError st1
          else
            Returned ()
              (st1\<lparr>files := (files st1)(mainFile \<mapsto> replace_seed currentFile (seed_block (tools st1)))\<rparr>))"

section \<open>The conversation driver\<close>

text \<open>
  The properties of a Decision that \<^verbatim>\<open>processUserInput\<close> reads from the value typed
  \<^verbatim>\<open>any\<close> that \<^verbatim>\<open>generateResponse\<close> returned. \<open>field v k\<close> is \<^verbatim>\<open>v.k\<close> for the property
  names the agent reads, none of which is a built-in property of a string, a number, a
  BigInt, a Boolean or an array; \<open>None\<close> where the access throws a \<^verbatim>\<open>TypeError\<close>.
\<close>

definition field :: "jsval \<Rightarrow> string \<Rightarrow> jsval option" where
  "field v k =
     (case v of
        JObj kvs \<Rightarrow> Some (case map_of kvs k of None \<Rightarrow> JUndefined | Some x \<Rightarrow> x)
      | JUndefined \<Rightarrow> None
      | JNull \<Rightarrow> None
      | _ \<Rightarrow> Some JUndefined)"

text \<open>
  The test \<^verbatim>\<open>x && x.length > 0\<close> followed by an iteration over \<open>x\<close>: an array gives its
  elements; \<^verbatim>\<open>undefined\<close>, \<^verbatim>\<open>null\<close>, a Boolean, a number, a BigInt and the empty string
  fail the test, like the empty array. A non-empty string and an object are not of the
  declared type (\<open>None\<close>).
\<close>

definition list_field :: "jsval \<Rightarrow> jsval list option" where
  "list_field v =
     (case v of
        JArr xs \<Rightarrow> Some xs
      | JStr s \<Rightarrow> if s = [] then Some [] else None
      | JObj kvs \<Rightarrow> None
      | _ \<Rightarrow> Some [])"

text \<open>\<^verbatim>\<open>action.args || []\<close>: an array, or a falsy value replaced by the empty array.\<close>

definition args_field :: "jsval \<Rightarrow> jsval list option" where
  "args_field v =
     (case v of
        JArr xs \<Rightarrow> Some xs
      | JUndefined \<Rightarrow> Some []
      | JNull \<Rightarrow> Some []
      | JBool b \<Rightarrow> if b then None else Some []
      | JNum w \<Rightarrow> if w = 0 then Some [] else None
      | JBigInt i \<Rightarrow> if i = 0 then Some [] else None
      | JStr s \<Rightarrow> if s = [] then Some [] else None
      | _ \<Rightarrow> None)"

definition Action_of_js :: "jsval \<Rightarrow> Action option" where
  "Action_of_js a =
     (case field a ''tool'' of
        Some (JStr t) \<Rightarrow>
          (case field a ''args'' of
             None \<Rightarrow> None
           | Some x \<Rightarrow> map_option (\<lambda>xs. \<lparr>tool = t, args = xs\<rparr>) (args_field x))
      | _ \<Rightarrow> None)"

definition actions_of_js :: "jsval \<Rightarrow> Action list option" where
  "actions_of_js d =
     (case field d ''actions'' of
        None \<Rightarrow> None
      | Some v \<Rightarrow>
          (case list_field v of None \<Rightarrow> None | Some xs \<Rightarrow> those (map Action_of_js xs)))"

text \<open>
  A proposed tool is kept as the object it is and later printed by \<^verbatim>\<open>JSON.stringify\<close>.
  The typed model takes the objects that have the three declared properties with string
  values, in any order and among any further properties.
\<close>

definition Tool_of_js :: "jsval \<Rightarrow> Tool option" where
  "Tool_of_js v =
     (case v of
        JObj kvs \<Rightarrow>
          (case (map_of kvs ''name'', map_of kvs ''description'', map_of kvs ''implementation'') of
             (Some (JStr n), Some (JStr d), Some (JStr i)) \<Rightarrow>
               Some \<lparr>name = n, description = d, implementation = i,
                     object =
                       (if kvs = [(''name'', JStr n), (''description'', JStr d),
                                  (''implementation'', JStr i)]
                        then None else Some v)\<rparr>
           | _ \<Rightarrow> None)
      | _ \<Rightarrow> None)"

definition newTools_of_js :: "jsval \<Rightarrow> Tool list option" where
  "newTools_of_js d =
     (case field d ''newTools'' of
        None \<Rightarrow> None
      | Some v \<Rightarrow>
          (case list_field v of None \<Rightarrow> None | Some xs \<Rightarrow> those (map Tool_of_js xs)))"

definition response_of_js :: "jsval \<Rightarrow> string option" where
  "response_of_js d = (case field d ''response'' of Some (JStr s) \<Rightarrow> Some s | _ \<Rightarrow> None)"

text \<open>
  The loop \<^verbatim>\<open>for (const action of aiResponse.actions)\<close>, which fills \<^verbatim>\<open>toolResults\<close>.
\<close>

fun run_actions ::
  "engine \<Rightarrow> Action list \<Rightarrow> (string \<times> ToolResult) list \<Rightarrow> state
     \<Rightarrow> ((string \<times> ToolResult) list, state) outcome" where
  "run_actions eng [] trs st = Returned trs st"
| "run_actions eng (a # acts) trs st =
     andThen (executeTool eng (tool a) (args a) st)
       (\<lambda>r st'. run_actions eng acts (record_assign (tool a) r trs) st')"

text \<open>\<^verbatim>\<open>restart\<close>: the history is saved and the process exits.\<close>

definition restart :: "state \<Rightarrow> ('a, state) outcome" where
  "restart st = Exited (saveHistory st)"

text \<open>
  The first part of \<^verbatim>\<open>processUserInput\<close>, up to the Decision it goes on with: the user
  message is pushed, a Decision is generated, and when it has actions they are run and a
  second Decision is generated with their results.
\<close>

definition decide :: "provider \<Rightarrow> engine \<Rightarrow> string \<Rightarrow> state \<Rightarrow> (jsval, state) outcome" where
  "decide prov eng input st =
     andThen (generateResponse prov input None
                (st\<lparr>history := history st @ [\<lparr>role = User, content = input\<rparr>]\<rparr>))
       (\<lambda>aiResponse st1.
          case actions_of_js aiResponse of
            None \<Rightarrow> Unmodelled st1
          | Some acts \<Rightarrow>
              if acts \<noteq> [] then
                andThen (run_actions eng acts [] st1)
                  (\<lambda>toolResults st2. generateResponse prov input (Some toolResults) st2)
              else Returned aiResponse st1)"

text \<open>
  The second part of \<^verbatim>\<open>processUserInput\<close>: new tools are committed and the process
  restarts; otherwise the response is pushed as the assistant's message, the history is
  saved and the response is returned.
\<close>

definition conclude :: "jsval \<Rightarrow> state \<Rightarrow> (string, state) outcome" where
  "conclude aiResponse st =
     (case newTools_of_js aiResponse of
        None \<Rightarrow> Unmodelled st
      | Some nts \<Rightarrow>
          andThen (if nts \<noteq> [] then andThen (updateTools nts st) (\<lambda>u st1. restart st1)
                   else Returned () st)
            (\<lambda>u st2.
               case response_of_js aiResponse of
                 None \<Rightarrow> Unmodelled st2
               | Some response \<Rightarrow>
                   Returned response
                     (saveHistory
                        (st2\<lparr>history := history st2 @ [\<lparr>role = Assistant, content = response\<rparr>]\<rparr>))))"

definition processUserInput ::
  "provider \<Rightarrow> engine \<Rightarrow> string \<Rightarrow> state \<Rightarrow> (string, state) outcome" where
  "processUserInput prov eng input st = andThen (decide prov eng input st) conclude"

text \<open>
  The tools of \<^verbatim>\<open>initializeBasicTools\<close> as the repository has them.
\<close>

definition basic_tools :: "Tool list" where
  "basic_tools =
     [\<lparr>name = ''readMainFile'',
       description = ''Reads the contents of the main index.ts file'',
       implementation =
         ''\<newline>          const content = readFileSync('' @ [CHR 0x27] @ ''index.ts'' @ [CHR 0x27] @ '', ''
         @ [CHR 0x27] @ ''utf-8'' @ [CHR 0x27] @ '');\<newline>          return content;\<newline>        '',
       object = None\<rparr>,
      \<lparr>name = ''writeMainFile'',
       description = ''Writes content to the main index.ts file'',
       implementation =
         ''\<newline>          writeFileSync('' @ [CHR 0x27] @ ''index.ts'' @ [CHR 0x27] @ '', arg0);\<newline>''
         @ ''          return '' @ [CHR 0x27] @ ''File written successfully'' @ [CHR 0x27]
         @ '';\<newline>        '',
       object = None\<rparr>,
      \<lparr>name = ''listFiles'',
       description = ''Lists all files in the current working directory'',
       implementation =
         ''\<newline>          const files = readdirSync('' @ [CHR 0x27] @ ''.'' @ [CHR 0x27] @ '');\<newline>''
         @ ''          return files;\<newline>        '',
       object = None\<rparr>]"


text \<open>
  The points of suspension. A call of \<^verbatim>\<open>processUserInput\<close> runs up to its first
  \<^verbatim>\<open>await\<close> inside the caller's turn; it is suspended while it waits for the provider,
  and other code of the process may run in between. (The awaited calls of tools are
  taken as one step each, see \<open>engine\<close>.) A suspended call is given by its input, the
  number of the prompt it waits on, and whether that prompt is the second one of the
  call, sent with the tool results.
\<close>

datatype call = Waiting string nat bool

text \<open>
  \<open>begin_call\<close>: the call up to its first suspension (line 231, and \<^verbatim>\<open>generateResponse\<close>
  up to its \<^verbatim>\<open>await\<close>). \<open>resume_call\<close>: the call from the arrival of the answer it waits
  on, up to its next suspension (\<open>Inl\<close>) or to its end (\<open>Inr\<close>, with the response).
\<close>

definition begin_call :: "string \<Rightarrow> state \<Rightarrow> (call, state) outcome" where
  "begin_call input st =
     andThen (send_prompt input None (st\<lparr>history := history st @ [\<lparr>role = User, content = input\<rparr>]\<rparr>))
       (\<lambda>n st1. Returned (Waiting input n False) st1)"

definition resume_call ::
  "provider \<Rightarrow> engine \<Rightarrow> call \<Rightarrow> state \<Rightarrow> (call + string, state) outcome" where
  "resume_call prov eng c st =
     (case c of
        Waiting input n refreshed \<Rightarrow>
          andThen (read_completion (prov n (sent st ! n)) st)
            (\<lambda>aiResponse st1.
               if refreshed
               then andThen (conclude aiResponse st1) (\<lambda>response st2. Returned (Inr response) st2)
               else
                 (case actions_of_js aiResponse of
                    None \<Rightarrow> Unmodelled st1
                  | Some acts \<Rightarrow>
                      if acts \<noteq> [] then
                        andThen (run_actions eng acts [] st1)
                          (\<lambda>toolResults st2.
                             andThen (send_prompt input (Some toolResults) st2)
                               (\<lambda>n' st3. Returned (Inl (Waiting input n' True)) st3))
                      else
                        andThen (conclude aiResponse st1)
                          (\<lambda>response st2. Returned (Inr response) st2))))"

text \<open>
  The interaction loop (lines 285 to 293). The handler of \<^verbatim>\<open>line\<close> events is an
  \<^verbatim>\<open>async\<close> function that nothing awaits: a line that arrives while a call is suspended
  starts another call. A session is the agent, the suspended calls, and the responses
  printed so far. An event is a line read from the input, or the arrival of the answer
  that the \<open>k\<close>-th suspended call waits on. A call that raises rejects the promise of
  its handler; the run of the model ends there.
\<close>

record session =
  agent :: state
  waiting :: "call list"
  printed :: "string list"

datatype event = Line string | Answer nat

definition on_line :: "string \<Rightarrow> session \<Rightarrow> (unit, session) outcome" where
  "on_line input ss =
     (case begin_call input (agent ss) of
        Returned c st \<Rightarrow> Returned () (ss\<lparr>agent := st, waiting := waiting ss @ [c]\<rparr>)
      | Raised e st \<Rightarrow> Raised e (ss\<lparr>agent := st\<rparr>)
      | Exited st \<Rightarrow> Exited (ss\<lparr>agent := st\<rparr>)
      | Unmodelled st \<Rightarrow> Unmodelled (ss\<lparr>agent := st\<rparr>))"

definition on_answer :: "provider \<Rightarrow> engine \<Rightarrow> nat \<Rightarrow> session \<Rightarrow> (unit, session) outcome" where
  "on_answer prov eng k ss =
     (if k < length (waiting ss) then
        (let others = take k (waiting ss) @ drop (Suc k) (waiting ss) in
         case resume_call prov eng (waiting ss ! k) (agent ss) of
           Returned r st \<Rightarrow>
             (case r of
                Inl c \<Rightarrow> Returned () (ss\<lparr>agent := st, waiting := (waiting ss)[k := c]\<rparr>)
              | Inr response \<Rightarrow>
                  Returned ()
                    (ss\<lparr>agent := st, waiting := others, printed := printed ss @ [response]\<rparr>))
         | Raised e st \<Rightarrow> Raised e (ss\<lparr>agent := st, waiting := others\<rparr>)
         | Exited st \<Rightarrow> Exited (ss\<lparr>agent := st, waiting := others\<rparr>)
         | Unmodelled st \<Rightarrow> Unmodelled (ss\<lparr>agent := st, waiting := others\<rparr>))
      else Returned () ss)"

fun run_events :: "provider \<Rightarrow> engine \<Rightarrow> event list \<Rightarrow> session \<Rightarrow> (unit, session) outcome" where
  "run_events prov eng [] ss = Returned () ss"
| "run_events prov eng (ev # evs) ss =
     andThen (case ev of Line input \<Rightarrow> on_line input ss | Answer k \<Rightarrow> on_answer prov eng k ss)
       (\<lambda>u ss'. run_events prov eng evs ss')"

section \<open>Concrete engines, tools and states\<close>

text \<open>
  Two engines for concrete runs. On \<open>engine_throwing e\<close> every call ends with \<open>e\<close> thrown.
  The implementation \<^verbatim>\<open>throw new Error(`boom`);\<close> throws inside the wrapper's \<^verbatim>\<open>try\<close>,
  whose \<^verbatim>\<open>catch\<close> throws an \<^verbatim>\<open>Error\<close> with the message \<^verbatim>\<open>Tool execution failed: boom\<close>. An
  implementation that returns a rejected promise passes the wrapper, which does not
  await, and the value of the rejection reaches the \<^verbatim>\<open>catch\<close> of \<^verbatim>\<open>executeTool\<close> as it
  is: an \<^verbatim>\<open>Error\<close> with the empty message for \<^verbatim>\<open>Promise.reject(new Error())\<close>, the string
  \<^verbatim>\<open>boom\<close> for \<^verbatim>\<open>Promise.reject(`boom`)\<close>, the object for \<^verbatim>\<open>Promise.reject({toString: 1})\<close>. On
  \<open>engine_returning v\<close> every call returns \<open>v\<close>: for \<^verbatim>\<open>undefined\<close> that is what an
  implementation with no \<^verbatim>\<open>return\<close> statement does. Neither touches the files.
\<close>

definition engine_throwing :: "thrown \<Rightarrow> engine" where
  "engine_throwing e params body argv fs = (Inl e, fs)"

definition engine_returning :: "jsval \<Rightarrow> engine" where
  "engine_returning v params body argv fs = (Inr v, fs)"




definition reject_object_tool :: Tool where
  "reject_object_tool = \<lparr>name = ''reject'', description = ''Always rejects'',
     implementation = ''return Promise.reject({toString: 1});'', object = None\<rparr>"

definition silent_tool :: Tool where
  "silent_tool = \<lparr>name = ''noop'', description = ''Does nothing'',
     implementation = ''const x = 1;'', object = None\<rparr>"

definition no_files :: files where
  "no_files = Map.empty"

text \<open>An agent with the given tools, no history and no files.\<close>

definition fresh_state :: "Tool list \<Rightarrow> state" where
  "fresh_state ts = \<lparr>history = [], tools = ts, files = no_files, sent = []\<rparr>"

text \<open>Providers for concrete runs: one that always fails, one that always answers the same.\<close>

definition failing_provider :: provider where
  "failing_provider n messages = Failure"

definition constant_provider :: "string option \<Rightarrow> provider" where
  "constant_provider c n messages = Choices [c]"

text \<open>
  A Decision as JSON text, with no actions and no new tools; a text that breaks off
  and is no JSON; a text inside code fences, with a language tag (\<^verbatim>\<open>json\<close>, or none)
  after the opening fence.
\<close>

definition decision_text :: "string \<Rightarrow> string" where
  \<open>decision_text r = ''{"reasoning":"","actions":[],"newTools":[],"response":"'' @ r @ ''"}''\<close>

definition broken_text :: string where
  \<open>broken_text = ''{"response": ''\<close>

definition fenced :: "string \<Rightarrow> string \<Rightarrow> string" where
  "fenced lang j = ''```'' @ lang @ ''\<newline>'' @ j @ ''\<newline>```''"

definition plain_decision :: "string \<Rightarrow> jsval" where
  "plain_decision r =
     JObj [(''reasoning'', JStr []), (''actions'', JArr []), (''newTools'', JArr []),
           (''response'', JStr r)]"

text \<open>
  A Decision that proposes one tool, as JSON text and as the value it parses to; an
  agent with the basic tools whose main file holds their seed block.
\<close>

definition greet_tool :: Tool where
  "greet_tool = \<lparr>name = ''greet'', description = ''Says hello'', implementation = ''return 1;'', object = None\<rparr>"

definition proposal_text :: string where
  \<open>proposal_text =
     ''{"reasoning":"","actions":[],"newTools":[{"name":"greet","description":"Says hello",''
     @ ''"implementation":"return 1;"}],"response":"Adding a tool"}''\<close>

definition proposal :: jsval where
  "proposal =
     JObj [(''reasoning'', JStr []), (''actions'', JArr []),
           (''newTools'', JArr [js_of_Tool greet_tool]),
           (''response'', JStr ''Adding a tool'')]"

text \<open>
  The same proposal with the properties of the tool in another order and with a further
  property, as text, as the tool it is read as, and as the value it parses to.
\<close>

definition reordered_text :: string where
  \<open>reordered_text =
     ''{"reasoning":"","actions":[],"newTools":[{"implementation":"return 1;","name":"greet",''
     @ ''"version":2,"description":"Says hello"}],"response":"Adding a tool"}''\<close>

definition reordered_tool :: Tool where
  "reordered_tool =
     \<lparr>name = ''greet'', description = ''Says hello'', implementation = ''return 1;'',
      object = Some (JObj [(''implementation'', JStr ''return 1;''), (''name'', JStr ''greet''),
                           (''version'', JNum 2), (''description'', JStr ''Says hello'')])\<rparr>"

definition reordered :: jsval where
  "reordered =
     JObj [(''reasoning'', JStr []), (''actions'', JArr []),
           (''newTools'', JArr [js_of_Tool reordered_tool]),
           (''response'', JStr ''Adding a tool'')]"

definition workspace_state :: state where
  "workspace_state =
     \<lparr>history = [], tools = basic_tools,
      files = no_files(mainFile \<mapsto> ''    '' @ seed_block basic_tools @ ''\<newline>''),
      sent = []\<rparr>"

text \<open>
  A tool whose implementation has two dollars in a row (a template literal that prints a
  dollar sign before its argument), the same tool with one dollar, and an agent with no
  tools whose main file is an empty seed block.
\<close>

definition price_tool :: Tool where
  "price_tool = \<lparr>name = ''price'', description = ''Formats an amount in dollars'',
     implementation = ''return `$${arg0}`;'', object = None\<rparr>"

definition price_tool_written :: Tool where
  "price_tool_written = \<lparr>name = ''price'', description = ''Formats an amount in dollars'',
     implementation = ''return `${arg0}`;'', object = None\<rparr>"

definition bare_state :: state where
  "bare_state = \<lparr>history = [], tools = [], files = no_files(mainFile \<mapsto> ''this.tools = [];''), sent = []\<rparr>"


text \<open>
  A tool that returns a BigInt, and a Decision that calls it, as text and as the value it
  parses to.
\<close>

definition count_tool :: Tool where
  "count_tool = \<lparr>name = ''count'', description = ''Counts'', implementation = ''return 1n;'',
     object = None\<rparr>"

definition action_text :: string where
  \<open>action_text =
     ''{"reasoning":"","actions":[{"tool":"count","args":[]}],"newTools":[],"response":""}''\<close>

definition action_decision :: jsval where
  "action_decision =
     JObj [(''reasoning'', JStr []),
           (''actions'', JArr [JObj [(''tool'', JStr ''count''), (''args'', JArr [])]]),
           (''newTools'', JArr []), (''response'', JStr [])]"

text \<open>
  A provider that answers every prompt with a Decision whose response repeats the last
  message of the prompt, which is the input of the call; a session with no call under
  way.
\<close>

definition echo_provider :: provider where
  "echo_provider n messages = Choices [Some (decision_text (''re: '' @ content (last messages)))]"

definition idle :: "state \<Rightarrow> session" where
  "idle st = \<lparr>agent = st, waiting = [], printed = []\<rparr>"

section \<open>Properties of the JSON model\<close>

subsection \<open>String literals are read back\<close>

lemma skip_ws_Cons_length: "skip_ws s = c # cs \<Longrightarrow> length cs < length s"
proof -
  assume a: "skip_ws s = c # cs"
  have "length (skip_ws s) \<le> length s"
    unfolding skip_ws_def by (rule length_dropWhile_le)
  with a show ?thesis by simp
qed

lemma hex_value_hex_char: "d < 16 \<Longrightarrow> hex_value (hex_char d) = Some d"
proof -
  assume "d < 16"
  then have "d = 0 \<or> d = 1 \<or> d = 2 \<or> d = 3 \<or> d = 4 \<or> d = 5 \<or> d = 6 \<or> d = 7
      \<or> d = 8 \<or> d = 9 \<or> d = 10 \<or> d = 11 \<or> d = 12 \<or> d = 13 \<or> d = 14 \<or> d = 15"
    by presburger
  then show ?thesis
    by (elim disjE) (simp_all add: hex_value_def hex_char_def)
qed

lemma unicode_escape_control:
  "(of_char c :: nat) < 32 \<Longrightarrow>
   unicode_escape lax ([CHR ''0'', CHR ''0'', hex_char (of_char c div 16), hex_char (of_char c mod 16)]) = Some c"
proof -
  assume a: "(of_char c :: nat) < 32"
  have h1: "hex_value (hex_char (of_char c div 16)) = Some (of_char c div 16)"
    using a by (intro hex_value_hex_char) simp
  have h2: "hex_value (hex_char (of_char c mod 16)) = Some (of_char c mod 16)"
    by (intro hex_value_hex_char) simp
  have h0: "hex_value CHR ''0'' = Some 0"
    by (simp add: hex_value_def)
  show ?thesis
    by (simp add: unicode_escape_def h0 h1 h2)
qed

lemma char_of_div_mod: "char_of (16 * ((of_char c :: nat) div 16) + of_char c mod 16) = c"
  by simp

lemma parse_chars_quote: "parse_chars lax (CHR 0x22 # rest) = Some ([], rest)"
  by (simp add: parse_chars.simps)

lemma simple_escape_cases:
  "simple_escape CHR 0x22 = Some (CHR 0x22)"
  "simple_escape CHR 0x5C = Some (CHR 0x5C)"
  "simple_escape CHR ''b'' = Some (CHR 0x08)"
  "simple_escape CHR ''f'' = Some (CHR 0x0C)"
  "simple_escape CHR ''n'' = Some (CHR 0x0A)"
  "simple_escape CHR ''r'' = Some (CHR 0x0D)"
  "simple_escape CHR ''t'' = Some (CHR 0x09)"
  by (simp_all add: simple_escape_def)

lemma parse_chars_simple:
  "simple_escape e = Some u \<Longrightarrow> e \<noteq> CHR ''u'' \<Longrightarrow>
   parse_chars lax (CHR 0x5C # e # rest) = cons_char u (parse_chars lax rest)"
  by (subst parse_chars.simps) simp

lemma parse_chars_unicode:
  "unicode_escape lax [a, b, c, d] = Some u \<Longrightarrow>
   parse_chars lax (CHR 0x5C # CHR ''u'' # a # b # c # d # rest) = cons_char u (parse_chars lax rest)"
  by (subst parse_chars.simps) simp

lemma parse_chars_plain:
  "c \<noteq> CHR 0x22 \<Longrightarrow> c \<noteq> CHR 0x5C \<Longrightarrow> \<not> (of_char c :: nat) < 32 \<Longrightarrow>
   parse_chars lax (c # rest) = cons_char c (parse_chars lax rest)"
  by (subst parse_chars.simps) simp

lemma parse_chars_escape:
  "parse_chars lax (escape_char c @ rest) = cons_char c (parse_chars lax rest)"
proof -
  consider "c = CHR 0x22" | "c = CHR 0x5C" | "c = CHR 0x08" | "c = CHR 0x0C" | "c = CHR 0x0A"
    | "c = CHR 0x0D" | "c = CHR 0x09"
    | "c \<notin> {CHR 0x22, CHR 0x5C, CHR 0x08, CHR 0x0C, CHR 0x0A, CHR 0x0D, CHR 0x09}" "(of_char c :: nat) < 32"
    | "c \<notin> {CHR 0x22, CHR 0x5C, CHR 0x08, CHR 0x0C, CHR 0x0A, CHR 0x0D, CHR 0x09}" "\<not> (of_char c :: nat) < 32"
    by blast
  then show ?thesis
  proof cases
    case 8
    then show ?thesis
      using parse_chars_unicode [OF unicode_escape_control [of c lax], of rest]
      by (simp add: escape_char_def)
  next
    case 9
    then show ?thesis
      using parse_chars_plain [of c lax rest] by (simp add: escape_char_def)
  qed (simp_all add: escape_char_def parse_chars_simple simple_escape_cases)
qed

lemma parse_chars_escaped:
  "parse_chars lax (concat (map escape_char s) @ CHR 0x22 # rest) = Some (s, rest)"
  by (induction s) (simp_all add: parse_chars_quote parse_chars_escape cons_char_def)

lemma parse_chars_quoted:
  "parse_chars lax (tl (quote s) @ rest) = Some (s, rest)"
  by (simp add: quote_def parse_chars_escaped)

subsection \<open>The parsers consume their input\<close>

lemma cons_char_Some: "cons_char c r = Some (x, rest) \<Longrightarrow> \<exists>y. r = Some (y, rest) \<and> x = c # y"
  by (auto simp: cons_char_def split: option.splits)

lemma parse_chars_shorter: "parse_chars lax s = Some (x, r) \<Longrightarrow> length r < length s"
proof (induction lax s arbitrary: x rule: parse_chars.induct)
  case (1 lax s)
  show ?case
  proof (cases s)
    case Nil
    with "1.prems" show ?thesis by (simp add: parse_chars.simps)
  next
    case (Cons c cs)
    note s = Cons
    show ?thesis
    proof (cases "c = CHR 0x22")
      case True
      with "1.prems" s show ?thesis by (simp add: parse_chars.simps)
    next
      case nq: False
      show ?thesis
      proof (cases "c = CHR 0x5C")
        case bs: True
        show ?thesis
        proof (cases cs)
          case Nil
          with "1.prems" s nq bs show ?thesis by (simp add: parse_chars.simps)
        next
          case (Cons e es)
          note cs = Cons
          show ?thesis
          proof (cases "e = CHR ''u''")
            case True
            with "1.prems" s nq bs cs obtain u where
              u: "unicode_escape lax (take 4 es) = Some u"
              and p: "cons_char u (parse_chars lax (drop 4 es)) = Some (x, r)"
              by (subst (asm) parse_chars.simps) (auto split: option.splits)
            from cons_char_Some [OF p] obtain y where "parse_chars lax (drop 4 es) = Some (y, r)"
              by blast
            from "1.IH"(1) [OF s nq bs cs True u this] have "length r < length (drop 4 es)" .
            with s cs show ?thesis by simp
          next
            case False
            with "1.prems" s nq bs cs obtain u where
              u: "simple_escape e = Some u"
              and p: "cons_char u (parse_chars lax es) = Some (x, r)"
              by (subst (asm) parse_chars.simps) (auto split: option.splits)
            from cons_char_Some [OF p] obtain y where "parse_chars lax es = Some (y, r)"
              by blast
            from "1.IH"(2) [OF s nq bs cs False u this] have "length r < length es" .
            with s cs show ?thesis by simp
          qed
        qed
      next
        case nb: False
        show ?thesis
        proof (cases "(of_char c :: nat) < 32")
          case True
          with "1.prems" s nq nb show ?thesis by (simp add: parse_chars.simps)
        next
          case False
          with "1.prems" s nq nb have p: "cons_char c (parse_chars lax cs) = Some (x, r)"
            by (subst (asm) parse_chars.simps) simp
          from cons_char_Some [OF p] obtain y where "parse_chars lax cs = Some (y, r)"
            by blast
          from "1.IH"(3) [OF s nq nb False this] have "length r < length cs" .
          with s show ?thesis by simp
        qed
      qed
    qed
  qed
qed

lemma length_take_drop_While:
  "length (takeWhile P xs) + length (dropWhile P xs) = length xs"
  by (induction xs) auto

lemma length_tl_le: "length (tl xs) \<le> length xs"
  by simp

lemma number_int_shorter: "number_int s = Some (neg, ds, r) \<Longrightarrow> length r < length s"
proof -
  assume a: "number_int s = Some (neg, ds, r)"
  define s1 where "s1 = (if s \<noteq> [] \<and> hd s = CHR ''-'' then tl s else s)"
  from a have ds: "takeWhile is_digit s1 \<noteq> []" and r: "r = dropWhile is_digit s1"
    by (auto simp: number_int_def Let_def s1_def split: if_splits)
  have "length s1 \<le> length s"
    by (simp add: s1_def)
  moreover have "length (takeWhile is_digit s1) + length r = length s1"
    unfolding r by (rule length_take_drop_While)
  moreover have "0 < length (takeWhile is_digit s1)"
    using ds by simp
  ultimately show ?thesis by linarith
qed

lemma number_frac_shorter: "number_frac s = Some r \<Longrightarrow> length r \<le> length s"
proof -
  assume a: "number_frac s = Some r"
  have "length (dropWhile is_digit (tl s)) \<le> length s"
    using length_dropWhile_le [of is_digit "tl s"] length_tl_le [of s] by linarith
  with a show ?thesis
    by (simp add: number_frac_def split: if_splits)
qed

lemma number_exp_shorter: "number_exp s = Some r \<Longrightarrow> length r \<le> length s"
proof -
  assume a: "number_exp s = Some r"
  have 1: "length (dropWhile is_digit (tl s)) \<le> length s"
    using length_dropWhile_le [of is_digit "tl s"] length_tl_le [of s] by linarith
  have 2: "length (dropWhile is_digit (tl (tl s))) \<le> length s"
    using length_dropWhile_le [of is_digit "tl (tl s)"] length_tl_le [of s] length_tl_le [of "tl s"]
    by linarith
  from a 1 2 show ?thesis
    by (simp add: number_exp_def Let_def split: if_splits)
qed

lemma parse_number_shorter:
  assumes "parse_number lax s = Some (v, r)"
  shows "length r < length s"
proof -
  from assms obtain neg ds s2 s3 where
    i: "number_int s = Some (neg, ds, s2)" and f: "number_frac s2 = Some s3"
    and e: "number_exp s3 = Some r"
    by (auto simp: parse_number_def split: option.splits if_splits prod.splits)
  from number_int_shorter [OF i] number_frac_shorter [OF f] number_exp_shorter [OF e]
  show ?thesis by linarith
qed

lemma skip_ws_length: "length (skip_ws s) \<le> length s"
  unfolding skip_ws_def by (rule length_dropWhile_le)

lemma parse_shorter:
  "parse_value lax s = Some (v, r) \<Longrightarrow> length r < length s"
  "parse_elements lax s1 = Some (vs, r1) \<Longrightarrow> length r1 < length s1"
  "parse_members lax s2 = Some (ms, r2) \<Longrightarrow> length r2 < length s2"
proof (induction lax s and lax s1 and lax s2 arbitrary: v r and vs r1 and ms r2
    rule: parse_value_parse_elements_parse_members.induct)
  case (1 lax s)
  note prem = "1.prems" [unfolded parse_value.simps [of lax s]]
  show ?case
  proof (cases "skip_ws s")
    case Nil
    with prem show ?thesis by simp
  next
    case (Cons c cs)
    note s = Cons
    have cs: "length cs < length s"
      by (rule skip_ws_Cons_length [OF s])
    consider (obj) "c = CHR ''{''" | (arr) "c \<noteq> CHR ''{''" "c = CHR ''[''"
      | (str) "c \<noteq> CHR ''{''" "c \<noteq> CHR ''[''" "c = CHR 0x22"
      | (other) "c \<noteq> CHR ''{''" "c \<noteq> CHR ''[''" "c \<noteq> CHR 0x22"
      by blast
    then show ?thesis
    proof cases
      case obj
      show ?thesis
      proof (cases "skip_ws cs")
        case Nil
        with prem s obj show ?thesis by simp
      next
        case (Cons d ds)
        note inner = Cons
        show ?thesis
        proof (cases "d = CHR ''}''")
          case True
          with prem s obj inner have "r = ds" by simp
          with skip_ws_Cons_length [OF inner] cs show ?thesis by simp
        next
          case False
          with prem s obj inner obtain ms where "parse_members lax cs = Some (ms, r)"
            by (auto split: option.splits)
          from "1.IH"(1) [OF s obj inner False this] cs show ?thesis by simp
        qed
      qed
    next
      case arr
      show ?thesis
      proof (cases "skip_ws cs")
        case Nil
        with prem s arr show ?thesis by simp
      next
        case (Cons d ds)
        note inner = Cons
        show ?thesis
        proof (cases "d = CHR '']''")
          case True
          with prem s arr inner have "r = ds" by simp
          with skip_ws_Cons_length [OF inner] cs show ?thesis by simp
        next
          case False
          with prem s arr inner obtain vs where "parse_elements lax cs = Some (vs, r)"
            by (auto split: option.splits)
          from "1.IH"(2) [OF s arr(1) arr(2) inner False this] cs show ?thesis by simp
        qed
      qed
    next
      case str
      with prem s obtain x where "parse_chars lax cs = Some (x, r)"
        by (auto split: option.splits)
      from parse_chars_shorter [OF this] cs show ?thesis by simp
    next
      case other
      from prem s other have
        "r = drop 4 (c # cs) \<or> r = drop 5 (c # cs) \<or> parse_number lax (c # cs) = Some (v, r)"
        by (simp split: if_splits)
      then show ?thesis
      proof (elim disjE)
        assume "parse_number lax (c # cs) = Some (v, r)"
        from parse_number_shorter [OF this] skip_ws_length [of s] s show ?thesis by simp
      qed (use cs in simp_all)
    qed
  qed
next
  case (2 lax s)
  note prem = "2.prems" [unfolded parse_elements.simps [of lax s]]
  from prem obtain v r where v: "parse_value lax s = Some (v, r)"
    by (auto split: option.splits)
  from "2.IH"(1) [OF v] have r: "length r < length s" .
  show ?case
  proof (cases "skip_ws r")
    case Nil
    with prem v show ?thesis by simp
  next
    case (Cons c cs)
    note sr = Cons
    have cs: "length cs < length s"
      using skip_ws_Cons_length [OF sr] r by simp
    show ?thesis
    proof (cases "c = CHR '']''")
      case True
      with prem v sr have "r1 = cs" by simp
      with cs show ?thesis by simp
    next
      case False
      with prem v sr have comma: "c = CHR '',''"
        by (simp split: if_splits)
      with prem v sr False cs obtain vs' where p: "parse_elements lax cs = Some (vs', r1)"
        by (auto split: option.splits)
      have "c = CHR '','' \<and> length cs < length s"
        using comma cs by simp
      from "2.IH"(2) [OF v refl sr False this p] cs show ?thesis by simp
    qed
  qed
next
  case (3 lax s)
  note prem = "3.prems" [unfolded parse_members.simps [of lax s]]
  show ?case
  proof (cases "skip_ws s")
    case Nil
    with prem show ?thesis by simp
  next
    case (Cons q s1)
    note s = Cons
    from prem s have q: "\<not> q \<noteq> CHR 0x22"
      by (auto split: if_splits)
    from prem s q obtain k s2 where k: "parse_chars lax s1 = Some (k, s2)"
      by (auto split: option.splits)
    show ?thesis
    proof (cases "skip_ws s2")
      case Nil
      with prem s q k show ?thesis by simp
    next
      case (Cons c s3)
      note s2 = Cons
      from prem s q k s2 have g: "\<not> (c \<noteq> CHR '':'' \<or> \<not> length s3 < length s)"
        by (auto split: if_splits)
      from prem s q k s2 g obtain v s4 where v: "parse_value lax s3 = Some (v, s4)"
        by (auto split: option.splits)
      from "3.IH"(1) [OF s q k refl s2 g v] have s4: "length s4 < length s3" .
      show ?thesis
      proof (cases "skip_ws s4")
        case Nil
        with prem s q k s2 g v show ?thesis by simp
      next
        case (Cons d s5)
        note sk = Cons
        have s5: "length s5 < length s"
          using skip_ws_Cons_length [OF sk] s4 g by simp
        show ?thesis
        proof (cases "d = CHR ''}''")
          case True
          with prem s q k s2 g v sk have "r2 = s5" by simp
          with s5 show ?thesis by simp
        next
          case False
          with prem s q k s2 g v sk have comma: "d = CHR '','' \<and> length s5 < length s"
            by (simp split: if_splits)
          with prem s q k s2 g v sk False obtain ms' where
            p: "parse_members lax s5 = Some (ms', r2)"
            by (auto split: option.splits)
          from "3.IH"(2) [OF s q k refl s2 g v refl sk False comma p] s5 show ?thesis by simp
        qed
      qed
    qed
  qed
qed

lemma parse_elements_unguarded:
  "parse_elements lax s =
     (case parse_value lax s of
        None \<Rightarrow> None
      | Some (v, r) \<Rightarrow>
          (case skip_ws r of
             [] \<Rightarrow> None
           | c # cs \<Rightarrow>
               if c = CHR '']'' then Some ([v], cs)
               else if c = CHR '','' then
                 (case parse_elements lax cs of
                    None \<Rightarrow> None
                  | Some (vs, r') \<Rightarrow> Some (v # vs, r'))
               else None))"
proof (cases "parse_value lax s")
  case None
  then show ?thesis by (subst parse_elements.simps) simp
next
  case (Some p)
  obtain v r where p: "p = (v, r)" by (cases p)
  from parse_shorter(1) Some p have r: "length r < length s" by simp
  show ?thesis
  proof (cases "skip_ws r")
    case Nil
    with Some p show ?thesis by (subst parse_elements.simps) simp
  next
    case (Cons c cs)
    from skip_ws_Cons_length [OF Cons] r have "length cs < length s" by simp
    with Some p Cons show ?thesis by (subst parse_elements.simps) simp
  qed
qed

lemma parse_members_unguarded:
  "parse_members lax s =
     (case skip_ws s of
        [] \<Rightarrow> None
      | q # s1 \<Rightarrow>
          if q \<noteq> CHR 0x22 then None
          else
            (case parse_chars lax s1 of
               None \<Rightarrow> None
             | Some (k, s2) \<Rightarrow>
                 (case skip_ws s2 of
                    [] \<Rightarrow> None
                  | c # s3 \<Rightarrow>
                      if c \<noteq> CHR '':'' then None
                      else
                        (case parse_value lax s3 of
                           None \<Rightarrow> None
                         | Some (v, s4) \<Rightarrow>
                             (case skip_ws s4 of
                                [] \<Rightarrow> None
                              | d # s5 \<Rightarrow>
                                  if d = CHR ''}'' then Some ([(k, v)], s5)
                                  else if d = CHR '','' then
                                    (case parse_members lax s5 of
                                       None \<Rightarrow> None
                                     | Some (ms, r) \<Rightarrow> Some ((k, v) # ms, r))
                                  else None)))))"
proof (cases "skip_ws s")
  case Nil
  then show ?thesis by (subst parse_members.simps) simp
next
  case (Cons q s1)
  note s = Cons
  have s1: "length s1 < length s" by (rule skip_ws_Cons_length [OF s])
  show ?thesis
  proof (cases "parse_chars lax s1")
    case None
    with s show ?thesis by (subst parse_members.simps) simp
  next
    case (Some p)
    obtain k s2 where p: "p = (k, s2)" by (cases p)
    from parse_chars_shorter Some p have s2: "length s2 < length s1" by simp
    show ?thesis
    proof (cases "skip_ws s2")
      case Nil
      with s Some p show ?thesis by (subst parse_members.simps) simp
    next
      case (Cons c s3)
      note sk2 = Cons
      from skip_ws_Cons_length [OF sk2] s1 s2 have s3: "length s3 < length s" by simp
      show ?thesis
      proof (cases "parse_value lax s3")
        case None
        with s Some p sk2 s3 show ?thesis by (subst parse_members.simps) simp
      next
        case pv: (Some p')
        obtain v s4 where p': "p' = (v, s4)" by (cases p')
        from parse_shorter(1) pv p' have s4: "length s4 < length s3" by simp
        show ?thesis
        proof (cases "skip_ws s4")
          case Nil
          with s Some p sk2 s3 pv p' show ?thesis by (subst parse_members.simps) simp
        next
          case (Cons d s5)
          from skip_ws_Cons_length [OF Cons] s4 s3 have "length s5 < length s" by simp
          with s Some p sk2 s3 pv p' Cons show ?thesis by (subst parse_members.simps) simp
        qed
      qed
    qed
  qed
qed

subsection \<open>A saved history is read back\<close>

lemma skip_ws_ws: "list_all is_ws w \<Longrightarrow> skip_ws (w @ s) = skip_ws s"
  by (induction w) (simp_all add: skip_ws_def)

lemma skip_ws_stop: "\<not> is_ws c \<Longrightarrow> skip_ws (c # s) = c # s"
  by (simp add: skip_ws_def)

lemma parse_value_ws: "list_all is_ws w \<Longrightarrow> parse_value lax (w @ s) = parse_value lax s"
  by (simp add: parse_value.simps [of lax "w @ s"] parse_value.simps [of lax s] skip_ws_ws)

lemma parse_members_ws: "list_all is_ws w \<Longrightarrow> parse_members lax (w @ s) = parse_members lax s"
  by (simp add: parse_members_unguarded [of lax "w @ s"] parse_members_unguarded [of lax s] skip_ws_ws)

lemma parse_elements_ws: "list_all is_ws w \<Longrightarrow> parse_elements lax (w @ s) = parse_elements lax s"
  by (simp add: parse_elements_unguarded [of lax "w @ s"] parse_elements_unguarded [of lax s] parse_value_ws)

lemma quote_Cons: "quote s = CHR 0x22 # (concat (map escape_char s) @ [CHR 0x22])"
  by (simp add: quote_def)

lemma parse_value_string: "parse_value lax (quote s @ rest) = Some (JStr s, rest)"
  by (subst parse_value.simps)
    (simp add: quote_Cons skip_ws_stop is_ws_def parse_chars_escaped)

text \<open>One member whose value parses, followed by the closing brace or by nxt members.\<close>

lemma parse_members_last:
  assumes "parse_value lax (vtext @ w @ CHR ''}'' # rest) = Some (v, w @ CHR ''}'' # rest)"
    and "list_all is_ws w"
  shows "parse_members lax (quote k @ '': '' @ vtext @ w @ CHR ''}'' # rest) = Some ([(k, v)], rest)"
proof -
  have 1: "skip_ws (quote k @ '': '' @ vtext @ w @ CHR ''}'' # rest)
      = CHR 0x22 # (concat (map escape_char k) @ CHR 0x22 # '': '' @ vtext @ w @ CHR ''}'' # rest)"
    by (simp add: quote_Cons skip_ws_stop is_ws_def)
  have 2: "skip_ws ('': '' @ vtext @ w @ CHR ''}'' # rest) = CHR '':'' # '' '' @ vtext @ w @ CHR ''}'' # rest"
    by (simp add: skip_ws_stop is_ws_def)
  have 3: "parse_value lax ('' '' @ vtext @ w @ CHR ''}'' # rest) = Some (v, w @ CHR ''}'' # rest)"
    using parse_value_ws [of "'' ''" lax "vtext @ w @ CHR ''}'' # rest"] assms(1)
    by (simp add: is_ws_def)
  have 4: "skip_ws (w @ CHR ''}'' # rest) = CHR ''}'' # rest"
    using assms(2) by (simp add: skip_ws_ws skip_ws_stop is_ws_def)
  show ?thesis
    apply (subst parse_members_unguarded)
    apply (simp only: 1 list.case)
    apply (simp add: parse_chars_escaped)
    using 2 3 4 apply simp
    done
qed

lemma parse_members_more:
  assumes "parse_value lax (vtext @ CHR '','' # nxt) = Some (v, CHR '','' # nxt)"
    and "parse_members lax nxt = Some (ms, rest)"
  shows "parse_members lax (quote k @ '': '' @ vtext @ CHR '','' # nxt) = Some ((k, v) # ms, rest)"
proof -
  have 1: "skip_ws (quote k @ '': '' @ vtext @ CHR '','' # nxt)
      = CHR 0x22 # (concat (map escape_char k) @ CHR 0x22 # '': '' @ vtext @ CHR '','' # nxt)"
    by (simp add: quote_Cons skip_ws_stop is_ws_def)
  have 2: "skip_ws ('': '' @ vtext @ CHR '','' # nxt) = CHR '':'' # '' '' @ vtext @ CHR '','' # nxt"
    by (simp add: skip_ws_stop is_ws_def)
  have 3: "parse_value lax ('' '' @ vtext @ CHR '','' # nxt) = Some (v, CHR '','' # nxt)"
    using parse_value_ws [of "'' ''" lax "vtext @ CHR '','' # nxt"] assms(1)
    by (simp add: is_ws_def)
  have 4: "skip_ws (CHR '','' # nxt) = CHR '','' # nxt"
    by (simp add: skip_ws_stop is_ws_def)
  show ?thesis
    apply (subst parse_members_unguarded)
    apply (simp only: 1 list.case)
    apply (simp add: parse_chars_escaped)
    using 2 3 4 assms(2) apply simp
    done
qed

lemma serialize_Message: "serialize ind (js_of_Message m) = Some (Message_text ind m)"
  by (simp add: js_of_Message_def Message_text_def)

lemma obj_of_members_Message:
  "obj_of_members [(''role'', JStr r), (''content'', JStr c)] = JObj [(''role'', JStr r), (''content'', JStr c)]"
  by (simp add: obj_of_members_def is_array_index_def is_digit_def)

lemma parse_value_Message:
  assumes "list_all is_ws ind"
  shows "parse_value lax (Message_text ind m @ rest) = Some (js_of_Message m, rest)"
proof -
  let ?w = "''\<newline>'' @ ind @ ''  ''"
  let ?w2 = "''\<newline>'' @ ind"
  let ?m2 = "quote ''content'' @ '': '' @ quote (content m) @ ?w2 @ CHR ''}'' # rest"
  let ?m1 = "quote ''role'' @ '': '' @ quote (role_name (role m)) @ CHR '','' # ?w @ ?m2"
  have w: "list_all is_ws ?w" and w2: "list_all is_ws ?w2"
    using assms by (simp_all add: is_ws_def)
  have shape: "Message_text ind m @ rest = CHR ''{'' # ?w @ ?m1"
    by (simp add: Message_text_def)
  have last: "parse_members lax ?m2 = Some ([(''content'', JStr (content m))], rest)"
    by (rule parse_members_last [OF parse_value_string w2])
  then have "parse_members lax (?w @ ?m2) = Some ([(''content'', JStr (content m))], rest)"
    by (simp only: parse_members_ws [OF w])
  from parse_members_more [OF parse_value_string this]
  have m1: "parse_members lax ?m1
      = Some ([(''role'', JStr (role_name (role m))), (''content'', JStr (content m))], rest)" .
  then have members: "parse_members lax (?w @ ?m1)
      = Some ([(''role'', JStr (role_name (role m))), (''content'', JStr (content m))], rest)"
    by (simp only: parse_members_ws [OF w])
  have sk: "skip_ws (?w @ ?m1) = CHR 0x22 # tl ?m1"
    by (simp only: skip_ws_ws [OF w]) (simp add: quote_Cons skip_ws_stop is_ws_def)
  have "parse_value lax (CHR ''{'' # ?w @ ?m1) = Some (js_of_Message m, rest)"
    apply (subst parse_value.simps)
    apply (simp only: skip_ws_stop [of "CHR ''{''", simplified is_ws_def, simplified] list.case)
    apply (simp only: sk members)
    apply (simp add: obj_of_members_Message js_of_Message_def)
    done
  with shape show ?thesis by simp
qed

lemma serialize_elements_Messages:
  "serialize_elements ind (map js_of_Message hs) = map (Message_text ind) hs"
  by (induction hs) (simp_all add: serialize_Message)

lemma JSON_stringify_history: "JSON_stringify (js_of_history hs) = Some (history_text hs)"
  by (simp add: JSON_stringify_def js_of_history_def history_text_def serialize_elements_Messages)

lemma Message_text_Cons: "Message_text ind m @ rest = CHR ''{'' # tl (Message_text ind m) @ rest"
  by (simp add: Message_text_def)

lemma parse_elements_Messages:
  "hs \<noteq> [] \<Longrightarrow>
   parse_elements lax (join '',\<newline>  '' (map (Message_text ''  '') hs) @ ''\<newline>]'' @ rest)
     = Some (map js_of_Message hs, rest)"
proof (induction hs rule: list_nonempty_induct)
  case (single m)
  have v: "parse_value lax (Message_text ''  '' m @ ''\<newline>]'' @ rest) = Some (js_of_Message m, ''\<newline>]'' @ rest)"
    by (rule parse_value_Message) (simp add: is_ws_def)
  have sk: "skip_ws (''\<newline>]'' @ rest) = CHR '']'' # rest"
    by (simp add: skip_ws_def is_ws_def)
  have shape: "join '',\<newline>  '' (map (Message_text ''  '') [m]) @ ''\<newline>]'' @ rest
      = Message_text ''  '' m @ ''\<newline>]'' @ rest"
    by simp
  show ?case
    unfolding shape
    by (subst parse_elements_unguarded) (simp only: v, simp add: skip_ws_def is_ws_def)
next
  case (cons m hs)
  let ?J = "join '',\<newline>  '' (map (Message_text ''  '') hs) @ ''\<newline>]'' @ rest"
  have shape: "join '',\<newline>  '' (map (Message_text ''  '') (m # hs)) @ ''\<newline>]'' @ rest
      = Message_text ''  '' m @ '',\<newline>  '' @ ?J"
    using cons.hyps by (cases hs) simp_all
  have v: "parse_value lax (Message_text ''  '' m @ '',\<newline>  '' @ ?J) = Some (js_of_Message m, '',\<newline>  '' @ ?J)"
    by (rule parse_value_Message) (simp add: is_ws_def)
  have sk: "skip_ws ('',\<newline>  '' @ ?J) = CHR '','' # ''\<newline>  '' @ ?J"
    by (simp add: skip_ws_def is_ws_def)
  have "parse_elements lax (''\<newline>  '' @ ?J) = parse_elements lax ?J"
    by (rule parse_elements_ws) (simp add: is_ws_def)
  with cons.IH have rest: "parse_elements lax (''\<newline>  '' @ ?J) = Some (map js_of_Message hs, rest)"
    by simp
  show ?case
    unfolding shape
    by (subst parse_elements_unguarded)
      (simp only: v option.case prod.case sk list.case rest, simp)
qed

lemma parse_value_history: "parse_value lax (history_text hs @ rest) = Some (js_of_history hs, rest)"
proof (cases hs)
  case Nil
  then show ?thesis
    by (subst parse_value.simps) (simp add: history_text_def js_of_history_def skip_ws_def is_ws_def)
next
  case (Cons m ms)
  let ?J = "join '',\<newline>  '' (map (Message_text ''  '') hs) @ ''\<newline>]'' @ rest"
  have ne: "hs \<noteq> []" using Cons by simp
  have shape: "history_text hs @ rest = CHR ''['' # ''\<newline>  '' @ ?J"
    using ne by (simp add: history_text_def)
  have J: "?J = CHR ''{'' # tl ?J"
    using Cons by (cases ms) (simp_all add: Message_text_def)
  have "skip_ws (''\<newline>  '' @ ?J) = skip_ws ?J"
    by (rule skip_ws_ws) (simp add: is_ws_def)
  also have "\<dots> = CHR ''{'' # tl ?J"
    by (subst J) (simp add: skip_ws_def is_ws_def)
  finally have sk: "skip_ws (''\<newline>  '' @ ?J) = CHR ''{'' # tl ?J" .
  have "parse_elements lax (''\<newline>  '' @ ?J) = parse_elements lax ?J"
    by (rule parse_elements_ws) (simp add: is_ws_def)
  with parse_elements_Messages [OF ne, of lax rest]
  have el: "parse_elements lax (''\<newline>  '' @ ?J) = Some (map js_of_Message hs, rest)"
    by simp
  show ?thesis
    unfolding shape
    apply (subst parse_value.simps)
    apply (simp only: skip_ws_stop [of "CHR ''[''", simplified is_ws_def, simplified] list.case)
    apply (simp only: sk el)
    apply (simp add: js_of_history_def)
    done
qed

lemma JSON_parse_history: "JSON_parse (history_text hs) = Parsed (js_of_history hs)"
  using parse_value_history [of False hs "[]"]
  by (simp add: JSON_parse_def parse_text_def skip_ws_def)

lemma role_of_name_role_name: "role_of_name (role_name r) = Some r"
  by (cases r) (simp_all add: role_of_name_def)

lemma Message_of_js_of_Message: "Message_of_js (js_of_Message m) = Some m"
  by (simp add: js_of_Message_def role_of_name_role_name)

lemma those_map_Some: "(\<And>x. f x = Some (g x)) \<Longrightarrow> those (map f xs) = Some (map g xs)"
  by (induction xs) simp_all

lemma Messages_of_js_of_history: "Messages_of_js (js_of_history hs) = Some hs"
  using those_map_Some [of "\<lambda>m. Message_of_js (js_of_Message m)" "\<lambda>m. m" hs]
  by (simp add: js_of_history_def Message_of_js_of_Message comp_def)

section \<open>Properties of the history store\<close>

lemma saveHistory_files:
  "saveHistory st = st\<lparr>files := (files st)(historyFile \<mapsto> history_text (history st))\<rparr>"
  by (simp add: saveHistory_def JSON_stringify_history)

lemma loadHistory_saved:
  "files st' historyFile = Some (history_text hs) \<Longrightarrow>
   loadHistory st' = Returned () (st'\<lparr>history := hs\<rparr>)"
  by (simp add: loadHistory_def JSON_parse_history Messages_of_js_of_history)

text \<open>
  C6. Saving the history replaces the whole content of the history file by the text
  that \<^verbatim>\<open>JSON.stringify\<close> gives for the history, and loading it right afterwards, in
  this process or in one started on the same files, gives back the same sequence of
  messages: same roles, same contents, same order.
\<close>

theorem saveHistory_loadHistory:
  "files (saveHistory st) = (files st)(historyFile := JSON_stringify (js_of_history (history st)))
   \<and> JSON_stringify (js_of_history (history st)) \<noteq> None
   \<and> loadHistory (st'\<lparr>files := files (saveHistory st)\<rparr>)
       = Returned () (st'\<lparr>files := files (saveHistory st), history := history st\<rparr>)"
  by (simp add: saveHistory_files loadHistory_saved JSON_stringify_history)

section \<open>Properties of the dynamic executor\<close>


lemma executeTool_cases:
  "(find (\<lambda>t. name t = nm) (tools st) = None \<and>
      executeTool eng nm argv st =
        Returned \<lparr>success = False, result = JNull, error = Some (not_found_message nm)\<rparr> st)
   \<or> (\<exists>t v fs'. find (\<lambda>t. name t = nm) (tools st) = Some t \<and>
         eng (arg_names argv) (wrap_implementation (implementation t)) argv (files st) = (Inr v, fs') \<and>
         executeTool eng nm argv st =
           Returned \<lparr>success = True, result = v, error = None\<rparr> (st\<lparr>files := fs'\<rparr>))
   \<or> (\<exists>t e fs' m. find (\<lambda>t. name t = nm) (tools st) = Some t \<and>
         eng (arg_names argv) (wrap_implementation (implementation t)) argv (files st) = (Inl e, fs') \<and>
         catch_message e = Some m \<and>
         executeTool eng nm argv st =
           Returned \<lparr>success = False, result = JNull, error = Some m\<rparr> (st\<lparr>files := fs'\<rparr>))
   \<or> (\<exists>t e fs'. find (\<lambda>t. name t = nm) (tools st) = Some t \<and>
         eng (arg_names argv) (wrap_implementation (implementation t)) argv (files st) = (Inl e, fs') \<and>
         catch_message e = None \<and>
         executeTool eng nm argv st = Raised TypeError (st\<lparr>files := fs'\<rparr>))"
  by (auto simp: executeTool_def split: option.splits sum.splits prod.splits)

lemma executeTool_ends:
  "(\<exists>r st'. executeTool eng nm argv st = Returned r st')
   \<or> (\<exists>st'. executeTool eng nm argv st = Raised TypeError st')"
  using executeTool_cases [of nm st eng argv] by auto

lemma executeTool_keeps:
  "history (final_state (executeTool eng nm argv st)) = history st
   \<and> tools (final_state (executeTool eng nm argv st)) = tools st
   \<and> sent (final_state (executeTool eng nm argv st)) = sent st"
  using executeTool_cases [of nm st eng argv] by auto




text \<open>
  The case that C1 leaves out: the tool \<open>reject_object_tool\<close> returns a promise rejected
  with the object \<^verbatim>\<open>{toString: 1}\<close>. It is no \<^verbatim>\<open>Error\<close>, \<^verbatim>\<open>String\<close> throws on it, and the
  call of \<^verbatim>\<open>executeTool\<close> raises that \<^verbatim>\<open>TypeError\<close>.
\<close>

lemma executeTool_conversion_throws:
  "executeTool (engine_throwing (Thrown (JObj [(''toString'', JNum 1)]))) ''reject'' []
      (fresh_state [reject_object_tool])
     = Raised TypeError (fresh_state [reject_object_tool])"
  by (simp add: executeTool_def reject_object_tool_def engine_throwing_def fresh_state_def)

text \<open>
  C9 (as amended). In every \<^verbatim>\<open>ToolResult\<close> produced by \<^verbatim>\<open>executeTool\<close> the error field is
  present iff \<^verbatim>\<open>success\<close> is false; on failure the result field is \<^verbatim>\<open>null\<close>; on success
  the result field is the value the implementation returned, whatever it is
  (also \<^verbatim>\<open>null\<close> or \<^verbatim>\<open>undefined\<close>).
\<close>

theorem executeTool_result_fields:
  "executeTool eng nm argv st = Returned r st' \<Longrightarrow>
     (error r \<noteq> None \<longleftrightarrow> \<not> success r) \<and>
     (\<not> success r \<longrightarrow> result r = JNull) \<and>
     (success r \<longrightarrow>
        (\<exists>t. find (\<lambda>t. name t = nm) (tools st) = Some t \<and>
           eng (arg_names argv) (wrap_implementation (implementation t)) argv (files st)
             = (Inr (result r), files st')))"
  using executeTool_cases [of nm st eng argv]
  by auto

text \<open>Two runs of C9: a tool that returns a string, and a name that is absent.\<close>

theorem executeTool_result_fields_witness:
  "executeTool (engine_returning (JStr ''File written successfully'')) ''noop''
      [JStr ''x''] (fresh_state [silent_tool])
     = Returned \<lparr>success = True, result = JStr ''File written successfully'', error = None\<rparr>
         (fresh_state [silent_tool])
   \<and> executeTool (engine_returning (JStr ''File written successfully'')) ''other''
      [JStr ''x''] (fresh_state [silent_tool])
     = Returned \<lparr>success = False, result = JNull,
         error = Some (''Tool '' @ [CHR 0x27] @ ''other'' @ [CHR 0x27] @ '' not found'')\<rparr>
         (fresh_state [silent_tool])"
proof -
  let ?eng = "engine_returning (JStr ''File written successfully'')"
  let ?st = "fresh_state [silent_tool]"
  have a: "executeTool ?eng ''noop'' [JStr ''x''] ?st
     = Returned \<lparr>success = True, result = JStr ''File written successfully'', error = None\<rparr> ?st"
    by (simp add: executeTool_def silent_tool_def engine_returning_def fresh_state_def)
  have b: "executeTool ?eng ''other'' [JStr ''x''] ?st
     = Returned \<lparr>success = False, result = JNull, error = Some (not_found_message ''other'')\<rparr> ?st"
    by (simp add: executeTool_def silent_tool_def fresh_state_def)
  from executeTool_result_fields [OF a] executeTool_result_fields [OF b] a b
  show ?thesis
    by (simp add: not_found_message_def)
qed

text \<open>
  C9, counterexample to the claim as stated (the result field carries a value whenever
  \<^verbatim>\<open>success\<close> is true): the tool \<open>silent_tool\<close> has no \<^verbatim>\<open>return\<close> statement, and the
  successful \<^verbatim>\<open>ToolResult\<close> carries \<^verbatim>\<open>undefined\<close>.
\<close>

theorem executeTool_success_without_value:
  "executeTool (engine_returning JUndefined) ''noop'' [] (fresh_state [silent_tool])
     = Returned \<lparr>success = True, result = JUndefined, error = None\<rparr> (fresh_state [silent_tool])"
  by (simp add: executeTool_def silent_tool_def engine_returning_def fresh_state_def)

section \<open>Properties of the completion orchestrator\<close>

text \<open>
  The prompt in full: one system turn, the history as it stands, the input as a user
  turn, and a trailing system turn exactly when tool results are passed. The system
  turn depends on the names and descriptions of the tools only.
\<close>

lemma map_Message_copy: "map (\<lambda>msg. \<lparr>role = role msg, content = content msg\<rparr>) hs = (hs :: Message list)"
  by (induction hs) simp_all

lemma build_messages_first:
  "build_messages ts hs input None
     = Some (\<lparr>role = System, content = getSystemPrompt ts\<rparr> # hs @ [\<lparr>role = User, content = input\<rparr>])"
  by (simp add: build_messages_def map_Message_copy)

lemma build_messages_second:
  "build_messages ts hs input (Some trs)
     = map_option
         (\<lambda>c. \<lparr>role = System, content = getSystemPrompt ts\<rparr> # hs
               @ [\<lparr>role = User, content = input\<rparr>, \<lparr>role = System, content = c\<rparr>])
         (tool_results_content trs)"
  by (cases "tool_results_content trs") (simp_all add: build_messages_def map_Message_copy)

lemma getSystemPrompt_catalog:
  "map name ts = map name ts' \<Longrightarrow> map description ts = map description ts' \<Longrightarrow>
   getSystemPrompt ts = getSystemPrompt ts'"
proof -
  assume n: "map name ts = map name ts'" and d: "map description ts = map description ts'"
  have "map (\<lambda>t. name t @ '': '' @ description t) ts
      = map (\<lambda>(a, b). a @ '': '' @ b) (zip (map name ts) (map description ts))"
    by (induction ts) simp_all
  moreover have "map (\<lambda>t. name t @ '': '' @ description t) ts'
      = map (\<lambda>(a, b). a @ '': '' @ b) (zip (map name ts') (map description ts'))"
    by (induction ts') simp_all
  ultimately show ?thesis
    by (simp add: getSystemPrompt_def n d)
qed

lemma generateResponse_cases:
  "build_messages (tools st) (history st) input trs = Some messages \<Longrightarrow>
   generateResponse prov input trs st
     = read_completion (prov (length (sent st)) messages) (st\<lparr>sent := sent st @ [messages]\<rparr>)"
  by (simp add: generateResponse_def send_prompt_def andThen_def)

lemma generateResponse_unsent:
  "build_messages (tools st) (history st) input trs = None \<Longrightarrow>
   generateResponse prov input trs st = Raised TypeError st"
  by (simp add: generateResponse_def send_prompt_def andThen_def)

lemma read_completion_state: "final_state (read_completion r st) = st"
  by (simp add: read_completion_def split: reply.splits list.splits parsed.splits)

lemma read_completion_not_Exited: "read_completion r st \<noteq> Exited st'"
  by (simp add: read_completion_def split: reply.splits list.splits parsed.splits)

lemma fallback_fields:
  "actions_of_js fallback_decision = Some []"
  "newTools_of_js fallback_decision = Some []"
  "response_of_js fallback_decision
     = Some ''Error: Failed to process the request. Please try again.''"
  by (simp_all add: fallback_decision_def actions_of_js_def newTools_of_js_def
      response_of_js_def field_def list_field_def)

text \<open>
  C2 (as amended). Let the prompt be built and sent. Whenever the provider call fails,
  the completion has no choice, or \<^verbatim>\<open>JSON.parse\<close> throws on the content of its first
  choice (fences stripped, trimmed, an absent or empty content read as \<^verbatim>\<open>{}\<close>),
  \<^verbatim>\<open>generateResponse\<close> does not raise and does not retry (the one prompt was sent); it
  returns the fixed fallback Decision, whose actions and new tools are empty and whose
  response is the fixed apology. Whenever \<^verbatim>\<open>JSON.parse\<close> returns a value, that value is
  returned, whatever its shape.
\<close>

theorem generateResponse_fallback:
  assumes "build_messages (tools st) (history st) input trs = Some messages"
  shows "(prov (length (sent st)) messages = Failure
          \<or> prov (length (sent st)) messages = Choices []
          \<or> (\<exists>c cs. prov (length (sent st)) messages = Choices (c # cs)
                \<and> JSON_parse (trim (strip_fences (content_or_default c))) = SyntaxError)
          \<longrightarrow> generateResponse prov input trs st
                = Returned fallback_decision (st\<lparr>sent := sent st @ [messages]\<rparr>))
     \<and> (\<forall>c cs v. prov (length (sent st)) messages = Choices (c # cs)
            \<and> JSON_parse (trim (strip_fences (content_or_default c))) = Parsed v
          \<longrightarrow> generateResponse prov input trs st
                = Returned v (st\<lparr>sent := sent st @ [messages]\<rparr>))
     \<and> actions_of_js fallback_decision = Some []
     \<and> newTools_of_js fallback_decision = Some []
     \<and> response_of_js fallback_decision
         = Some ''Error: Failed to process the request. Please try again.''"
  by (auto simp: generateResponse_cases [OF assms] read_completion_def fallback_fields)

lemma parse_prose: "JSON_parse (trim (strip_fences (content_or_default (Some ''Sorry, no JSON'')))) = SyntaxError"
  by code_simp

lemma parse_plain:
  "JSON_parse (trim (strip_fences (content_or_default (Some (decision_text ''hi there'')))))
     = Parsed (plain_decision ''hi there'')"
  by code_simp

text \<open>
  Three runs of C2: a provider call that fails, an output that is no JSON, and an
  output that is a Decision.
\<close>

theorem generateResponse_fallback_witness:
  "generateResponse failing_provider ''hello'' None (fresh_state [])
     = Returned fallback_decision
         ((fresh_state [])\<lparr>sent := [[\<lparr>role = System, content = getSystemPrompt []\<rparr>,
                                      \<lparr>role = User, content = ''hello''\<rparr>]]\<rparr>)
   \<and> generateResponse (constant_provider (Some ''Sorry, no JSON'')) ''hello'' None (fresh_state [])
     = Returned fallback_decision
         ((fresh_state [])\<lparr>sent := [[\<lparr>role = System, content = getSystemPrompt []\<rparr>,
                                      \<lparr>role = User, content = ''hello''\<rparr>]]\<rparr>)
   \<and> generateResponse (constant_provider (Some (decision_text ''hi there''))) ''hello'' None
        (fresh_state [])
     = Returned (plain_decision ''hi there'')
         ((fresh_state [])\<lparr>sent := [[\<lparr>role = System, content = getSystemPrompt []\<rparr>,
                                      \<lparr>role = User, content = ''hello''\<rparr>]]\<rparr>)"
proof -
  let ?messages = "[\<lparr>role = System, content = getSystemPrompt []\<rparr>, \<lparr>role = User, content = ''hello''\<rparr>]"
  have b: "build_messages (tools (fresh_state [])) (history (fresh_state [])) ''hello'' None
             = Some ?messages"
    by (simp add: build_messages_first fresh_state_def)
  note t = generateResponse_fallback [OF b]
  from t [of failing_provider] t [of "constant_provider (Some ''Sorry, no JSON'')"]
    t [of "constant_provider (Some (decision_text ''hi there''))"]
  show ?thesis
    by (simp add: failing_provider_def constant_provider_def parse_prose parse_plain fresh_state_def)
qed

text \<open>
  C2, counterexample to the claim as stated: a completion with no content cannot be
  parsed as a Decision, and \<^verbatim>\<open>generateResponse\<close> returns the empty object, which has no
  response, instead of the fallback Decision.
\<close>

lemma parse_absent: "JSON_parse (trim (strip_fences (content_or_default None))) = Parsed (JObj [])"
  by code_simp

lemma hello_messages:
  "build_messages (tools (fresh_state [])) (history (fresh_state [])) ''hello'' None
     = Some [\<lparr>role = System, content = getSystemPrompt []\<rparr>, \<lparr>role = User, content = ''hello''\<rparr>]"
  by (simp add: build_messages_first fresh_state_def)

theorem generateResponse_absent_content:
  "generateResponse (constant_provider None) ''hello'' None (fresh_state [])
     = Returned (JObj [])
         ((fresh_state [])\<lparr>sent := [[\<lparr>role = System, content = getSystemPrompt []\<rparr>,
                                      \<lparr>role = User, content = ''hello''\<rparr>]]\<rparr>)
   \<and> JObj [] \<noteq> fallback_decision
   \<and> response_of_js (JObj []) = None"
proof -
  have "generateResponse (constant_provider None) ''hello'' None (fresh_state [])
     = Returned (JObj [])
         ((fresh_state [])\<lparr>sent := [[\<lparr>role = System, content = getSystemPrompt []\<rparr>,
                                      \<lparr>role = User, content = ''hello''\<rparr>]]\<rparr>)"
    by (simp only: generateResponse_cases [OF hello_messages] constant_provider_def
        read_completion_def reply.case list.case parse_absent parsed.case)
      (simp add: fresh_state_def)
  then show ?thesis
    by (simp add: fallback_decision_def response_of_js_def field_def)
qed

text \<open>
  Two cases that C2 leaves out. An answer with no \<^verbatim>\<open>choices\<close> makes the logging line of
  the \<^verbatim>\<open>catch\<close> block throw, and \<^verbatim>\<open>generateResponse\<close> raises after the prompt was sent. Tool
  results that hold a BigInt make \<^verbatim>\<open>JSON.stringify\<close> throw before the \<^verbatim>\<open>try\<close> block, and
  \<^verbatim>\<open>generateResponse\<close> raises with no prompt sent.
\<close>

lemma generateResponse_shapeless:
  "generateResponse (\<lambda>n messages. Shapeless) ''hello'' None (fresh_state [])
     = Raised TypeError
         ((fresh_state [])\<lparr>sent := [[\<lparr>role = System, content = getSystemPrompt []\<rparr>,
                                      \<lparr>role = User, content = ''hello''\<rparr>]]\<rparr>)"
  by (simp only: generateResponse_cases [OF hello_messages] read_completion_def reply.case)
    (simp add: fresh_state_def)

lemma generateResponse_BigInt:
  "generateResponse prov input
      (Some [(''count'', \<lparr>success = True, result = JBigInt 1, error = None\<rparr>)]) st
     = Raised TypeError st"
  by (rule generateResponse_unsent)
    (simp add: build_messages_def tool_results_content_def js_of_toolResults_def js_of_ToolResult_def)

subsection \<open>Code fences\<close>

lemma take3_closing: "fence_free j \<Longrightarrow> take 3 (j @ ''\<newline>```'') \<noteq> ''```''"
proof (cases j)
  case Nil
  then show ?thesis by simp
next
  case (Cons a r1)
  note j = Cons
  assume ff: "fence_free j"
  show ?thesis
  proof (cases r1)
    case Nil
    with j show ?thesis by simp
  next
    case (Cons b r2)
    note r1 = Cons
    show ?thesis
    proof (cases r2)
      case Nil
      with j r1 show ?thesis by simp
    next
      case (Cons c r3)
      with j r1 ff show ?thesis by simp
    qed
  qed
qed

lemma strip_fences_plain:
  "s \<noteq> [] \<Longrightarrow> take 7 s \<noteq> ''```json'' \<Longrightarrow> take 4 s \<noteq> ''\<newline>```'' \<Longrightarrow> take 3 s \<noteq> ''```''
   \<Longrightarrow> strip_fences s = hd s # strip_fences (tl s)"
  by (subst strip_fences.simps) simp

lemma strip_fences_closing: "fence_free j \<Longrightarrow> strip_fences (j @ ''\<newline>```'') = j"
proof (induction j)
  case Nil
  have "strip_fences ''\<newline>```'' = strip_fences []"
    by (subst strip_fences.simps) simp
  also have "\<dots> = []"
    by (subst strip_fences.simps) simp
  finally show ?case by simp
next
  case (Cons c cs)
  let ?s = "(c # cs) @ ''\<newline>```''"
  from Cons.prems have ff: "fence_free cs" by simp
  have t3: "take 3 ?s \<noteq> ''```''"
    by (rule take3_closing [OF Cons.prems])
  have t7: "take 7 ?s \<noteq> ''```json''"
  proof
    assume "take 7 ?s = ''```json''"
    then have "take 3 (take 7 ?s) = take 3 ''```json''" by simp
    then have "take 3 ?s = ''```''" by (simp only: take_take) simp
    with t3 show False by contradiction
  qed
  have t4: "take 4 ?s \<noteq> ''\<newline>```''"
  proof
    assume a: "take 4 ?s = ''\<newline>```''"
    then have "take 3 (cs @ ''\<newline>```'') = ''```''" by simp
    with take3_closing [OF ff] show False by contradiction
  qed
  have "strip_fences ?s = hd ?s # strip_fences (tl ?s)"
    by (rule strip_fences_plain [OF _ t7 t4 t3]) simp
  then have "strip_fences ?s = c # strip_fences (cs @ ''\<newline>```'')"
    by simp
  with Cons.IH [OF ff] show ?case by simp
qed

lemma strip_fences_fenced_json: "fence_free j \<Longrightarrow> strip_fences (fenced ''json'' j) = j"
proof -
  assume ff: "fence_free j"
  have "strip_fences (fenced ''json'' j) = strip_fences (j @ ''\<newline>```'')"
    unfolding fenced_def by (subst strip_fences.simps) simp
  with strip_fences_closing [OF ff] show ?thesis by simp
qed

lemma strip_fences_fenced_plain: "fence_free j \<Longrightarrow> strip_fences (fenced [] j) = ''\<newline>'' @ j"
proof -
  assume ff: "fence_free j"
  let ?s = "''\<newline>'' @ j @ ''\<newline>```''"
  have 1: "strip_fences (fenced [] j) = strip_fences ?s"
    unfolding fenced_def by (subst strip_fences.simps) simp
  have t4: "take 4 ?s \<noteq> ''\<newline>```''"
    using take3_closing [OF ff] by simp
  have "strip_fences ?s = hd ?s # strip_fences (tl ?s)"
    by (rule strip_fences_plain [OF _ _ t4]) simp_all
  then have "strip_fences ?s = CHR 0x0A # strip_fences (j @ ''\<newline>```'')"
    by simp
  with 1 strip_fences_closing [OF ff] show ?thesis by simp
qed

lemma trim_newline: "trim (''\<newline>'' @ j) = trim j"
  by (simp add: trim_def is_js_space_def)

lemma fenced_nonempty: "content_or_default (Some (fenced lang j)) = fenced lang j"
  by (simp add: content_or_default_def fenced_def)

lemma fenced_text:
  "fence_free j \<Longrightarrow> lang = ''json'' \<or> lang = [] \<Longrightarrow>
   trim (strip_fences (content_or_default (Some (fenced lang j)))) = trim j"
  using strip_fences_fenced_json [of j] strip_fences_fenced_plain [of j] trim_newline [of j]
  by (auto simp: fenced_nonempty)

text \<open>
  C8 (as amended). Let the prompt be built and sent. For a provider output that wraps a
  text \<open>j\<close> in code fences and has nothing else (an opening fence with the tag \<^verbatim>\<open>json\<close> or
  with none, a newline, \<open>j\<close>, a newline, a closing fence), where three backquotes in a
  row occur nowhere in \<open>j\<close>, the orchestrator strips the fences: it returns the value
  that \<^verbatim>\<open>JSON.parse\<close> gives for \<open>j\<close>, and where \<^verbatim>\<open>JSON.parse\<close> throws on \<open>j\<close>, the fixed
  fallback Decision. For every output on which, the fence markers removed, \<^verbatim>\<open>JSON.parse\<close>
  throws, it returns the fixed fallback Decision, without raising.
\<close>

theorem generateResponse_fenced:
  assumes "build_messages (tools st) (history st) input trs = Some messages"
  shows "(\<forall>lang j cs v. fence_free j \<and> (lang = ''json'' \<or> lang = [])
            \<and> prov (length (sent st)) messages = Choices (Some (fenced lang j) # cs)
            \<and> JSON_parse (trim j) = Parsed v
          \<longrightarrow> generateResponse prov input trs st
                = Returned v (st\<lparr>sent := sent st @ [messages]\<rparr>))
     \<and> (\<forall>lang j cs. fence_free j \<and> (lang = ''json'' \<or> lang = [])
            \<and> prov (length (sent st)) messages = Choices (Some (fenced lang j) # cs)
            \<and> JSON_parse (trim j) = SyntaxError
          \<longrightarrow> generateResponse prov input trs st
                = Returned fallback_decision (st\<lparr>sent := sent st @ [messages]\<rparr>))
     \<and> (\<forall>c cs. prov (length (sent st)) messages = Choices (c # cs)
            \<and> JSON_parse (trim (strip_fences (content_or_default c))) = SyntaxError
          \<longrightarrow> generateResponse prov input trs st
                = Returned fallback_decision (st\<lparr>sent := sent st @ [messages]\<rparr>))"
proof (intro conjI allI impI)
  fix lang j cs v
  assume a: "fence_free j \<and> (lang = ''json'' \<or> lang = [])
            \<and> prov (length (sent st)) messages = Choices (Some (fenced lang j) # cs)
            \<and> JSON_parse (trim j) = Parsed v"
  then have "trim (strip_fences (content_or_default (Some (fenced lang j)))) = trim j"
    by (intro fenced_text) simp_all
  with a show "generateResponse prov input trs st
                = Returned v (st\<lparr>sent := sent st @ [messages]\<rparr>)"
    by (simp add: generateResponse_cases [OF assms] read_completion_def)
next
  fix lang j cs
  assume a: "fence_free j \<and> (lang = ''json'' \<or> lang = [])
            \<and> prov (length (sent st)) messages = Choices (Some (fenced lang j) # cs)
            \<and> JSON_parse (trim j) = SyntaxError"
  then have "trim (strip_fences (content_or_default (Some (fenced lang j)))) = trim j"
    by (intro fenced_text) simp_all
  with a show "generateResponse prov input trs st
                = Returned fallback_decision (st\<lparr>sent := sent st @ [messages]\<rparr>)"
    by (simp add: generateResponse_cases [OF assms] read_completion_def)
next
  fix c cs
  assume "prov (length (sent st)) messages = Choices (c # cs)
            \<and> JSON_parse (trim (strip_fences (content_or_default c))) = SyntaxError"
  then show "generateResponse prov input trs st
                = Returned fallback_decision (st\<lparr>sent := sent st @ [messages]\<rparr>)"
    by (simp add: generateResponse_cases [OF assms] read_completion_def)
qed

lemma fence_free_example: "fence_free (decision_text ''hi there'')"
  by code_simp

lemma parse_example: "JSON_parse (trim (decision_text ''hi there'')) = Parsed (plain_decision ''hi there'')"
  by code_simp

lemma fence_free_broken: "fence_free broken_text"
  by code_simp

lemma parse_broken: "JSON_parse (trim broken_text) = SyntaxError"
  by code_simp

text \<open>
  Two runs of C8: a Decision wrapped in code fences is returned as it is, and a broken
  text wrapped in code fences gives the fallback Decision.
\<close>

theorem generateResponse_fenced_witness:
  "generateResponse (constant_provider (Some (fenced ''json'' (decision_text ''hi there''))))
      ''hello'' None (fresh_state [])
     = Returned (plain_decision ''hi there'')
         ((fresh_state [])\<lparr>sent := [[\<lparr>role = System, content = getSystemPrompt []\<rparr>,
                                      \<lparr>role = User, content = ''hello''\<rparr>]]\<rparr>)
   \<and> generateResponse (constant_provider (Some (fenced [] broken_text))) ''hello'' None
        (fresh_state [])
     = Returned fallback_decision
         ((fresh_state [])\<lparr>sent := [[\<lparr>role = System, content = getSystemPrompt []\<rparr>,
                                      \<lparr>role = User, content = ''hello''\<rparr>]]\<rparr>)"
proof -
  note t = generateResponse_fenced [OF hello_messages]
  from t [of "constant_provider (Some (fenced ''json'' (decision_text ''hi there'')))"]
    fence_free_example parse_example
  have a: "generateResponse (constant_provider (Some (fenced ''json'' (decision_text ''hi there''))))
      ''hello'' None (fresh_state [])
     = Returned (plain_decision ''hi there'')
         ((fresh_state [])\<lparr>sent := sent (fresh_state [])
            @ [[\<lparr>role = System, content = getSystemPrompt []\<rparr>, \<lparr>role = User, content = ''hello''\<rparr>]]\<rparr>)"
    by (simp add: constant_provider_def)
  from t [of "constant_provider (Some (fenced [] broken_text))"]
    fence_free_broken parse_broken
  have b: "generateResponse (constant_provider (Some (fenced [] broken_text))) ''hello'' None
        (fresh_state [])
     = Returned fallback_decision
         ((fresh_state [])\<lparr>sent := sent (fresh_state [])
            @ [[\<lparr>role = System, content = getSystemPrompt []\<rparr>, \<lparr>role = User, content = ''hello''\<rparr>]]\<rparr>)"
    by (simp add: constant_provider_def)
  from a b show ?thesis
    by (simp add: fresh_state_def)
qed

text \<open>
  C8, counterexample to the claim as stated, in two runs. A valid Decision whose response
  mentions a code fence, wrapped in code fences: the fence inside the response is
  stripped too, and the Decision returned is not the embedded one. A valid Decision
  wrapped in code fences after a line of prose: the prose stays in the text, which then
  does not parse, and the fallback Decision is returned, not the embedded one.
\<close>

lemma parse_embedded:
  "JSON_parse (decision_text ''Use ```json fences'') = Parsed (plain_decision ''Use ```json fences'')"
  by code_simp

lemma parse_stripped:
  "JSON_parse (trim (strip_fences (content_or_default
      (Some (fenced ''json'' (decision_text ''Use ```json fences''))))))
     = Parsed (plain_decision ''Use  fences'')"
  by code_simp

lemma parse_prose_fenced:
  "JSON_parse (trim (strip_fences (content_or_default
      (Some (''Here is the answer:\<newline>'' @ fenced ''json'' (decision_text ''hi there''))))))
     = SyntaxError"
  by code_simp

lemma parse_hi_there:
  "JSON_parse (decision_text ''hi there'') = Parsed (plain_decision ''hi there'')"
  by code_simp

theorem generateResponse_fence_in_response:
  "JSON_parse (decision_text ''Use ```json fences'') = Parsed (plain_decision ''Use ```json fences'')
   \<and> generateResponse
        (constant_provider (Some (fenced ''json'' (decision_text ''Use ```json fences''))))
        ''hello'' None (fresh_state [])
     = Returned (plain_decision ''Use  fences'')
         ((fresh_state [])\<lparr>sent := [[\<lparr>role = System, content = getSystemPrompt []\<rparr>,
                                      \<lparr>role = User, content = ''hello''\<rparr>]]\<rparr>)
   \<and> plain_decision ''Use  fences'' \<noteq> plain_decision ''Use ```json fences''
   \<and> JSON_parse (decision_text ''hi there'') = Parsed (plain_decision ''hi there'')
   \<and> generateResponse
        (constant_provider
           (Some (''Here is the answer:\<newline>'' @ fenced ''json'' (decision_text ''hi there''))))
        ''hello'' None (fresh_state [])
     = Returned fallback_decision
         ((fresh_state [])\<lparr>sent := [[\<lparr>role = System, content = getSystemPrompt []\<rparr>,
                                      \<lparr>role = User, content = ''hello''\<rparr>]]\<rparr>)
   \<and> fallback_decision \<noteq> plain_decision ''hi there''"
proof -
  have a: "generateResponse
        (constant_provider (Some (fenced ''json'' (decision_text ''Use ```json fences''))))
        ''hello'' None (fresh_state [])
     = Returned (plain_decision ''Use  fences'')
         ((fresh_state [])\<lparr>sent := [[\<lparr>role = System, content = getSystemPrompt []\<rparr>,
                                      \<lparr>role = User, content = ''hello''\<rparr>]]\<rparr>)"
    by (simp only: generateResponse_cases [OF hello_messages] constant_provider_def
        read_completion_def reply.case list.case parse_stripped parsed.case)
      (simp add: fresh_state_def)
  have b: "generateResponse
        (constant_provider
           (Some (''Here is the answer:\<newline>'' @ fenced ''json'' (decision_text ''hi there''))))
        ''hello'' None (fresh_state [])
     = Returned fallback_decision
         ((fresh_state [])\<lparr>sent := [[\<lparr>role = System, content = getSystemPrompt []\<rparr>,
                                      \<lparr>role = User, content = ''hello''\<rparr>]]\<rparr>)"
    by (simp only: generateResponse_cases [OF hello_messages] constant_provider_def
        read_completion_def reply.case list.case parse_prose_fenced parsed.case)
      (simp add: fresh_state_def)
  have c: "fallback_decision \<noteq> plain_decision ''hi there''"
    by (simp add: fallback_decision_def plain_decision_def)
  have d: "plain_decision ''Use  fences'' \<noteq> plain_decision ''Use ```json fences''"
    by (simp add: plain_decision_def)
  from a b c d parse_embedded parse_hi_there show ?thesis
    by blast
qed

section \<open>Properties of the self-rewrite coordinator\<close>

text \<open>
  The seed block of the repository's main file (the assignment in
  \<^verbatim>\<open>initializeBasicTools\<close>) is, character for character, the serialization of the three
  basic tools.
\<close>

lemma seed_block_basic_tools:
  \<open>seed_block basic_tools =
     ''this.tools = [\<newline>''
     @ ''{\<newline>''
     @ ''  "name": "readMainFile",\<newline>''
     @ ''  "description": "Reads the contents of the main index.ts file",\<newline>''
     @ ''  "implementation": "'' @ [CHR 0x5C] @ ''n          const content = readFileSync(''
     @ [CHR 0x27] @ ''index.ts'' @ [CHR 0x27] @ '', '' @ [CHR 0x27] @ ''utf-8'' @ [CHR 0x27]
     @ '');'' @ [CHR 0x5C] @ ''n          return content;'' @ [CHR 0x5C]
     @ ''n        "\<newline>''
     @ ''},\<newline>''
     @ ''{\<newline>''
     @ ''  "name": "writeMainFile",\<newline>''
     @ ''  "description": "Writes content to the main index.ts file",\<newline>''
     @ ''  "implementation": "'' @ [CHR 0x5C] @ ''n          writeFileSync('' @ [CHR 0x27]
     @ ''index.ts'' @ [CHR 0x27] @ '', arg0);'' @ [CHR 0x5C] @ ''n          return ''
     @ [CHR 0x27] @ ''File written successfully'' @ [CHR 0x27] @ '';'' @ [CHR 0x5C]
     @ ''n        "\<newline>''
     @ ''},\<newline>''
     @ ''{\<newline>''
     @ ''  "name": "listFiles",\<newline>''
     @ ''  "description": "Lists all files in the current working directory",\<newline>''
     @ ''  "implementation": "'' @ [CHR 0x5C] @ ''n          const files = readdirSync(''
     @ [CHR 0x27] @ ''.'' @ [CHR 0x27] @ '');'' @ [CHR 0x5C] @ ''n          return files;''
     @ [CHR 0x5C] @ ''n        "\<newline>''
     @ ''}\<newline>''
     @ ''];''\<close>
  by code_simp

lemma expand_replacement_step:
  "t \<noteq> [] \<Longrightarrow> hd t \<noteq> CHR ''$'' \<Longrightarrow>
   expand_replacement m b a g t = hd t # expand_replacement m b a g (tl t)"
  by (subst expand_replacement.simps) (cases t, auto)

lemma expand_replacement_plain: "CHR ''$'' \<notin> set t \<Longrightarrow> expand_replacement m b a g t = t"
proof (induction t)
  case Nil
  then show ?case by (subst expand_replacement.simps) simp
next
  case (Cons c cs)
  then have "c \<noteq> CHR ''$''" and "expand_replacement m b a g cs = cs"
    by auto
  with expand_replacement_step [of "c # cs" m b a g] show ?case
    by simp
qed

lemma replace_seed_plain:
  "find_seed cur = Some (b, g, a) \<Longrightarrow> CHR ''$'' \<notin> set repl \<Longrightarrow> replace_seed cur repl = b @ repl @ a"
  by (simp add: replace_seed_def expand_replacement_plain)

lemma tools_updateTools: "tools (final_state (updateTools nts st)) = tools st @ nts"
  by (cases "files st mainFile") (simp_all add: updateTools_def Let_def)

text \<open>A tool written in the source holds no BigInt.\<close>

lemma plain_Tool_serializable: "object t = None \<Longrightarrow> \<not> holds_BigInt (js_of_Tool t)"
  by (simp add: js_of_Tool_def)

text \<open>
  Where the serialization has no dollar sign and the main file has a seed block, the
  block is replaced by the serialization of the old tools followed by the new ones.
\<close>

lemma updateTools_plain:
  assumes "files st mainFile = Some cur" and "find_seed cur = Some (b, g, a)"
    and "\<not> list_ex (\<lambda>t. holds_BigInt (js_of_Tool t)) (tools st @ nts)"
    and "CHR ''$'' \<notin> set (seed_block (tools st @ nts))"
  shows "updateTools nts st
       = Returned ()
           (st\<lparr>tools := tools st @ nts,
               files := (files st)(mainFile \<mapsto> b @ seed_block (tools st @ nts) @ a)\<rparr>)"
  using assms by (simp add: updateTools_def Let_def replace_seed_plain)

lemma replace_seed_price:
  "replace_seed ''this.tools = [];'' (seed_block [price_tool]) = seed_block [price_tool_written]"
  by code_simp

lemma seed_blocks_differ: "seed_block [price_tool_written] \<noteq> seed_block [price_tool]"
  by code_simp

text \<open>
  C5, the code at the failing input. Committing the tool \<open>price_tool\<close> appends it to the
  tools in memory, but the seed block written to the main file is not the serialization
  of that list: \<^verbatim>\<open>replace\<close> reads \<^verbatim>\<open>$$\<close> in the replacement text as one dollar, so the
  file holds \<open>price_tool_written\<close>.
\<close>

theorem updateTools_dollar_pattern:
  "updateTools [price_tool] bare_state
     = Returned ()
         (bare_state
            \<lparr>tools := [price_tool],
             files := (files bare_state)(mainFile \<mapsto> seed_block [price_tool_written])\<rparr>)
   \<and> seed_block [price_tool_written] \<noteq> seed_block [price_tool]"
proof -
  have "\<not> holds_BigInt (js_of_Tool price_tool)"
    by (rule plain_Tool_serializable) (simp add: price_tool_def)
  then show ?thesis
    by (simp add: updateTools_def Let_def bare_state_def replace_seed_price seed_blocks_differ)
qed
section \<open>Properties of the conversation driver\<close>

lemma andThen_Returned [simp]: "andThen (Returned x s) f = f x s"
  by (simp add: andThen_def)

lemma andThen_other [simp]:
  "andThen (Raised e s) f = Raised e s"
  "andThen (Exited s) f = Exited s"
  "andThen (Unmodelled s) f = Unmodelled s"
  by (simp_all add: andThen_def)

lemma andThen_return: "andThen m (\<lambda>x s. Returned x s) = m"
  by (cases m) simp_all

lemma andThen_assoc: "andThen (andThen m f) g = andThen m (\<lambda>x s. andThen (f x s) g)"
  by (cases m) simp_all

text \<open>
  The loop over the actions returns the tool results or raises the \<^verbatim>\<open>TypeError\<close> of
  \<^verbatim>\<open>executeTool\<close>; it leaves the history, the tools and the prompts sent as they are.
\<close>

lemma run_actions_cases:
  "(\<exists>trs' st'. run_actions eng acts trs st = Returned trs' st'
       \<and> history st' = history st \<and> tools st' = tools st \<and> sent st' = sent st)
   \<or> (\<exists>st'. run_actions eng acts trs st = Raised TypeError st'
       \<and> history st' = history st \<and> tools st' = tools st \<and> sent st' = sent st)"
proof (induction acts arbitrary: trs st)
  case Nil
  then show ?case by simp
next
  case (Cons a acts)
  note k = executeTool_keeps [of eng "tool a" "args a" st]
  from executeTool_ends [of eng "tool a" "args a" st] show ?case
  proof (elim disjE exE)
    fix r st1
    assume r: "executeTool eng (tool a) (args a) st = Returned r st1"
    with k have "history st1 = history st" "tools st1 = tools st" "sent st1 = sent st"
      by simp_all
    with Cons.IH [of "record_assign (tool a) r trs" st1] r show ?thesis
      by auto
  next
    fix st1
    assume r: "executeTool eng (tool a) (args a) st = Raised TypeError st1"
    with k have "history st1 = history st" "tools st1 = tools st" "sent st1 = sent st"
      by simp_all
    with r show ?thesis by simp
  qed
qed

lemma read_completion_cases:
  "(\<exists>d. read_completion r st = Returned d st)
   \<or> read_completion r st = Raised TypeError st
   \<or> read_completion r st = Unmodelled st"
  by (simp add: read_completion_def split: reply.splits list.splits parsed.splits)

lemma generateResponse_outcome:
  "generateResponse prov input trs st = Raised TypeError st
   \<or> (\<exists>messages r. generateResponse prov input trs st
          = read_completion r (st\<lparr>sent := sent st @ [messages]\<rparr>))"
proof (cases "build_messages (tools st) (history st) input trs")
  case None
  then show ?thesis by (simp add: generateResponse_unsent)
next
  case (Some messages)
  from generateResponse_cases [OF Some] show ?thesis by blast
qed

text \<open>
  How \<open>decide\<close> ends: it does not exit; whether it returns a Decision, raises or leaves
  the model, the user's message has been pushed and the first prompt has been sent,
  with the input twice.
\<close>

lemma decide_final:
  "(\<forall>s. decide prov eng input st \<noteq> Exited s)
   \<and> history (final_state (decide prov eng input st))
       = history st @ [\<lparr>role = User, content = input\<rparr>]
   \<and> tools (final_state (decide prov eng input st)) = tools st
   \<and> (\<exists>prompts. sent (final_state (decide prov eng input st))
         = sent st
           @ (\<lparr>role = System, content = getSystemPrompt (tools st)\<rparr> # history st
              @ [\<lparr>role = User, content = input\<rparr>, \<lparr>role = User, content = input\<rparr>])
           # prompts)"
  (is "?P (decide prov eng input st)")
proof -
  let ?st0 = "st\<lparr>history := history st @ [\<lparr>role = User, content = input\<rparr>]\<rparr>"
  let ?m = "\<lparr>role = System, content = getSystemPrompt (tools st)\<rparr> # history st
              @ [\<lparr>role = User, content = input\<rparr>, \<lparr>role = User, content = input\<rparr>]"
  let ?st1 = "?st0\<lparr>sent := sent st @ [?m]\<rparr>"
  let ?r = "prov (length (sent st)) ?m"
  have b: "build_messages (tools ?st0) (history ?st0) input None = Some ?m"
    by (simp add: build_messages_first)
  have g1: "generateResponse prov input None ?st0 = read_completion ?r ?st1"
    using generateResponse_cases [OF b, of prov] by simp
  from read_completion_cases [of ?r ?st1] consider
    (ret) d where "read_completion ?r ?st1 = Returned d ?st1"
    | (raise) "read_completion ?r ?st1 = Raised TypeError ?st1"
    | (unm) "read_completion ?r ?st1 = Unmodelled ?st1"
    by blast
  then show ?thesis
  proof cases
    case raise
    then have "decide prov eng input st = Raised TypeError ?st1"
      by (simp add: decide_def g1)
    then show ?thesis by simp
  next
    case unm
    then have "decide prov eng input st = Unmodelled ?st1"
      by (simp add: decide_def g1)
    then show ?thesis by simp
  next
    case ret
    show ?thesis
    proof (cases "actions_of_js d")
      case None
      with ret have "decide prov eng input st = Unmodelled ?st1"
        by (simp add: decide_def g1)
      then show ?thesis by simp
    next
      case (Some acts)
      show ?thesis
      proof (cases "acts = []")
        case True
        with ret Some have "decide prov eng input st = Returned d ?st1"
          by (simp add: decide_def g1)
        then show ?thesis by simp
      next
        case False
        from run_actions_cases [of eng acts "[]" ?st1] show ?thesis
        proof (elim disjE exE conjE)
          fix st2
          assume ra: "run_actions eng acts [] ?st1 = Raised TypeError st2"
            and k: "history st2 = history ?st1" "tools st2 = tools ?st1" "sent st2 = sent ?st1"
          from ret Some False ra have "decide prov eng input st = Raised TypeError st2"
            by (simp add: decide_def g1)
          with k show ?thesis by simp
        next
          fix trs st2
          assume ra: "run_actions eng acts [] ?st1 = Returned trs st2"
            and k: "history st2 = history ?st1" "tools st2 = tools ?st1" "sent st2 = sent ?st1"
          from ret Some False ra
          have d2: "decide prov eng input st = generateResponse prov input (Some trs) st2"
            by (simp add: decide_def g1)
          from generateResponse_outcome [of prov input "Some trs" st2] show ?thesis
          proof (elim disjE exE)
            assume "generateResponse prov input (Some trs) st2 = Raised TypeError st2"
            with d2 k show ?thesis by simp
          next
            fix messages r
            assume g2: "generateResponse prov input (Some trs) st2
                = read_completion r (st2\<lparr>sent := sent st2 @ [messages]\<rparr>)"
            have fs: "final_state (decide prov eng input st) = st2\<lparr>sent := sent st2 @ [messages]\<rparr>"
              by (simp add: d2 g2 read_completion_state)
            have ne: "\<forall>s. decide prov eng input st \<noteq> Exited s"
              by (simp add: d2 g2 read_completion_not_Exited)
            from fs ne k show ?thesis by simp
          qed
        qed
      qed
    qed
  qed
qed

lemma decide_Returned:
  assumes "decide prov eng input st = Returned d st1"
  shows "history st1 = history st @ [\<lparr>role = User, content = input\<rparr>]" and "tools st1 = tools st"
  using decide_final [of prov eng input st] assms by simp_all

text \<open>
  How \<open>conclude\<close> ends when the Decision has new tools: with the exit when the main file
  was rewritten, and else with what \<^verbatim>\<open>updateTools\<close> raised.
\<close>

lemma conclude_newTools:
  assumes "newTools_of_js d = Some nts" and "nts \<noteq> []"
  shows "conclude d st
       = (case updateTools nts st of
            Returned u st1 \<Rightarrow> Exited (saveHistory st1)
          | Raised e st1 \<Rightarrow> Raised e st1
          | Exited st1 \<Rightarrow> Exited st1
          | Unmodelled st1 \<Rightarrow> Unmodelled st1)"
  using assms by (cases "updateTools nts st") (simp_all add: conclude_def restart_def)

lemma conclude_restart:
  assumes "newTools_of_js d = Some nts" and "nts \<noteq> []"
    and "files st mainFile = Some currentFile"
    and "\<not> list_ex (\<lambda>t. holds_BigInt (js_of_Tool t)) (tools st @ nts)"
  shows "conclude d st
       = Exited (saveHistory
           (st\<lparr>tools := tools st @ nts,
               files := (files st)(mainFile \<mapsto> replace_seed currentFile (seed_block (tools st @ nts)))\<rparr>))"
  using assms(3,4) by (simp add: conclude_newTools [OF assms(1,2)] updateTools_def Let_def)

lemma conclude_rewrite_fails:
  assumes "newTools_of_js d = Some nts" and "nts \<noteq> []" and "files st mainFile = None"
  shows "conclude d st = Raised (NoSuchFile mainFile) (st\<lparr>tools := tools st @ nts\<rparr>)"
  using assms(3) by (simp add: conclude_newTools [OF assms(1,2)] updateTools_def Let_def)

lemma conclude_reply:
  assumes "newTools_of_js d = Some []" and "response_of_js d = Some r"
  shows "conclude d st
       = Returned r (saveHistory (st\<lparr>history := history st @ [\<lparr>role = Assistant, content = r\<rparr>]\<rparr>))"
  using assms by (simp add: conclude_def)

lemma processUserInput_decided:
  "decide prov eng input st = Returned d st1 \<Longrightarrow> processUserInput prov eng input st = conclude d st1"
  by (simp add: processUserInput_def)

lemma history_saveHistory [simp]: "history (saveHistory st) = history st"
  by (simp add: saveHistory_files)

lemma tools_saveHistory [simp]: "tools (saveHistory st) = tools st"
  by (simp add: saveHistory_files)

lemma sent_saveHistory [simp]: "sent (saveHistory st) = sent st"
  by (simp add: saveHistory_files)

lemma saved_history [simp]: "files (saveHistory st) historyFile = Some (history_text (history st))"
  by (simp add: saveHistory_files)

lemma mainFile_not_historyFile: "mainFile \<noteq> historyFile"
  by (simp add: mainFile_def historyFile_def)

lemma updateTools_cases:
  "(\<exists>cur. files st mainFile = Some cur
       \<and> \<not> list_ex (\<lambda>t. holds_BigInt (js_of_Tool t)) (tools st @ nts)
       \<and> updateTools nts st
           = Returned ()
               (st\<lparr>tools := tools st @ nts,
                   files := (files st)(mainFile \<mapsto> replace_seed cur (seed_block (tools st @ nts)))\<rparr>))
   \<or> (\<exists>e. updateTools nts st = Raised e (st\<lparr>tools := tools st @ nts\<rparr>))"
  by (cases "files st mainFile") (simp_all add: updateTools_def Let_def)

text \<open>
  C4 (as amended). When the Decision that \<^verbatim>\<open>processUserInput\<close> goes on with (the
  refreshed one, if there were actions) has new tools, they are committed. When the main
  file exists and is rewritten (the tools are serialized: those written in the source
  and those made by \<^verbatim>\<open>JSON.parse\<close> hold no BigInt), the process restarts: the call ends
  in the exit, after the history was saved with the user's message as its last one. When
  the main file does not exist, the call raises the error of the rewrite, and the
  history file is left as it was. In no case does the call return: no assistant message
  is pushed and the response is not delivered.
\<close>

theorem newTools_restart:
  assumes "decide prov eng input st = Returned d st1"
    and "newTools_of_js d = Some nts" and "nts \<noteq> []"
  shows "(\<forall>r s. processUserInput prov eng input st \<noteq> Returned r s)
     \<and> history (final_state (processUserInput prov eng input st))
         = history st @ [\<lparr>role = User, content = input\<rparr>]
     \<and> tools (final_state (processUserInput prov eng input st)) = tools st @ nts
     \<and> (\<forall>currentFile. files st1 mainFile = Some currentFile
            \<and> \<not> list_ex (\<lambda>t. holds_BigInt (js_of_Tool t)) (tools st @ nts) \<longrightarrow>
          processUserInput prov eng input st
            = Exited (saveHistory
                (st1\<lparr>tools := tools st1 @ nts,
                     files := (files st1)
                       (mainFile \<mapsto> replace_seed currentFile (seed_block (tools st1 @ nts)))\<rparr>))
          \<and> files (final_state (processUserInput prov eng input st)) historyFile
              = Some (history_text (history st @ [\<lparr>role = User, content = input\<rparr>])))
     \<and> (files st1 mainFile = None \<longrightarrow>
          processUserInput prov eng input st
            = Raised (NoSuchFile mainFile) (st1\<lparr>tools := tools st1 @ nts\<rparr>)
          \<and> files (final_state (processUserInput prov eng input st)) historyFile
              = files st1 historyFile)"
proof -
  note h = decide_Returned [OF assms(1)]
  note p = processUserInput_decided [OF assms(1)]
  note c = conclude_newTools [OF assms(2,3), of st1]
  from updateTools_cases [of st1 nts] show ?thesis
  proof (elim disjE exE conjE)
    fix cur
    assume f: "files st1 mainFile = Some cur"
      and s: "\<not> list_ex (\<lambda>t. holds_BigInt (js_of_Tool t)) (tools st1 @ nts)"
      and u: "updateTools nts st1
           = Returned ()
               (st1\<lparr>tools := tools st1 @ nts,
                   files := (files st1)(mainFile \<mapsto> replace_seed cur (seed_block (tools st1 @ nts)))\<rparr>)"
    from f u h show ?thesis
      by (simp add: p c)
  next
    fix e
    assume u: "updateTools nts st1 = Raised e (st1\<lparr>tools := tools st1 @ nts\<rparr>)"
    show ?thesis
    proof (cases "files st1 mainFile")
      case None
      from conclude_rewrite_fails [OF assms(2,3) None] h None show ?thesis
        by (simp add: p)
    next
      case (Some cur)
      have "list_ex (\<lambda>t. holds_BigInt (js_of_Tool t)) (tools st @ nts)"
      proof (rule ccontr)
        assume "\<not> list_ex (\<lambda>t. holds_BigInt (js_of_Tool t)) (tools st @ nts)"
        with Some h have "\<exists>s. updateTools nts st1 = Returned () s"
          by (simp add: updateTools_def Let_def)
        with u show False by simp
      qed
      with u h Some show ?thesis
        by (simp add: p c)
    qed
  qed
qed

lemma sent_conclude: "sent (final_state (conclude d st)) = sent st"
proof (cases "newTools_of_js d")
  case None
  then show ?thesis by (simp add: conclude_def)
next
  case (Some nts)
  show ?thesis
  proof (cases "nts = []")
    case True
    with Some show ?thesis
      by (cases "response_of_js d") (simp_all add: conclude_def)
  next
    case False
    from updateTools_cases [of st nts] show ?thesis
      by (auto simp: conclude_newTools [OF Some False])
  qed
qed

text \<open>
  C3, what the code does. The user's message is pushed onto the history before the
  first prompt is built from the history and the input, so the first prompt of a call
  of \<^verbatim>\<open>processUserInput\<close> is the system turn, the prior history, and then the current
  input twice over, as two user turns.
\<close>

theorem processUserInput_first_prompt:
  "\<exists>prompts.
     sent (final_state (processUserInput prov eng input st))
       = sent st
         @ (\<lparr>role = System, content = getSystemPrompt (tools st)\<rparr> # history st
            @ [\<lparr>role = User, content = input\<rparr>, \<lparr>role = User, content = input\<rparr>])
         # prompts"
proof -
  have "sent (final_state (processUserInput prov eng input st))
      = sent (final_state (decide prov eng input st))"
    by (cases "decide prov eng input st") (simp_all add: processUserInput_def sent_conclude)
  with decide_final [of prov eng input st] show ?thesis
    by simp
qed




subsection \<open>Suspended calls\<close>

text \<open>
  A call of \<^verbatim>\<open>processUserInput\<close> that runs alone is the call begun and then resumed at
  each answer, once or twice.
\<close>

lemma processUserInput_steps:
  "processUserInput prov eng input st
     = andThen (begin_call input st)
         (\<lambda>c st1.
            andThen (resume_call prov eng c st1)
              (\<lambda>r st2.
                 case r of
                   Inr response \<Rightarrow> Returned response st2
                 | Inl c' \<Rightarrow>
                     andThen (resume_call prov eng c' st2)
                       (\<lambda>r' st3.
                          case r' of
                            Inr response \<Rightarrow> Returned response st3
                          | Inl c'' \<Rightarrow> Unmodelled st3)))"
proof -
  let ?st0 = "st\<lparr>history := history st @ [\<lparr>role = User, content = input\<rparr>]\<rparr>"
  let ?finish = "\<lambda>r st2. case r of Inr response \<Rightarrow> Returned response st2
                 | Inl c' \<Rightarrow>
                     andThen (resume_call prov eng c' st2)
                       (\<lambda>r' st3.
                          case r' of
                            Inr response \<Rightarrow> Returned response st3
                          | Inl c'' \<Rightarrow> Unmodelled st3)"
  have fin: "andThen (andThen (conclude d s) (\<lambda>response st2. Returned (Inr response) st2)) ?finish
      = conclude d s" for d s
    by (cases "conclude d s") simp_all
  have second: "andThen (resume_call prov eng (Waiting input n True) s)
                       (\<lambda>r' st3.
                          case r' of
                            Inr response \<Rightarrow> Returned response st3
                          | Inl c'' \<Rightarrow> Unmodelled st3)
      = andThen (read_completion (prov n (sent s ! n)) s) conclude" for n s
  proof (cases "read_completion (prov n (sent s ! n)) s")
    case (Returned d s1)
    then show ?thesis
      by (cases "conclude d s1") (simp_all add: resume_call_def)
  qed (simp_all add: resume_call_def)
  show ?thesis
  proof (cases "send_prompt input None ?st0")
    case (Returned n s)
    show ?thesis
    proof (cases "read_completion (prov n (sent s ! n)) s")
      case rc: (Returned d s1)
      show ?thesis
      proof (cases "actions_of_js d")
        case None
        with Returned rc show ?thesis
          by (simp add: processUserInput_def decide_def generateResponse_def begin_call_def
              resume_call_def)
      next
        case (Some acts)
        show ?thesis
        proof (cases "acts = []")
          case True
          with Returned rc Some show ?thesis
            by (simp add: processUserInput_def decide_def generateResponse_def begin_call_def
                resume_call_def fin)
        next
          case False
          show ?thesis
          proof (cases "run_actions eng acts [] s1")
            case ra: (Returned trs s2)
            show ?thesis
            proof (cases "send_prompt input (Some trs) s2")
              case sp: (Returned n' s3)
              with Returned rc Some False ra show ?thesis
                by (simp add: processUserInput_def decide_def generateResponse_def begin_call_def
                    resume_call_def [of prov eng "Waiting input n False"] second)
            qed (use Returned rc Some False ra in
                \<open>simp_all add: processUserInput_def decide_def generateResponse_def begin_call_def
                    resume_call_def\<close>)
          qed (use Returned rc Some False in
              \<open>simp_all add: processUserInput_def decide_def generateResponse_def begin_call_def
                  resume_call_def\<close>)
        qed
      qed
    qed (use Returned in
        \<open>simp_all add: processUserInput_def decide_def generateResponse_def begin_call_def
            resume_call_def\<close>)
  qed (simp_all add: processUserInput_def decide_def generateResponse_def begin_call_def)
qed

text \<open>What a line does to a session, and what the answer to a call with a plain Decision does.\<close>

lemma begin_call_run:
  "begin_call input st
     = Returned (Waiting input (length (sent st)) False)
         (st\<lparr>history := history st @ [\<lparr>role = User, content = input\<rparr>],
             sent := sent st
               @ [\<lparr>role = System, content = getSystemPrompt (tools st)\<rparr> # history st
                  @ [\<lparr>role = User, content = input\<rparr>, \<lparr>role = User, content = input\<rparr>]]\<rparr>)"
  by (simp add: begin_call_def send_prompt_def build_messages_first)

lemma on_line_run:
  "on_line input ss
     = Returned ()
         (ss\<lparr>agent := (agent ss)
               \<lparr>history := history (agent ss) @ [\<lparr>role = User, content = input\<rparr>],
                sent := sent (agent ss)
                  @ [\<lparr>role = System, content = getSystemPrompt (tools (agent ss))\<rparr>
                     # history (agent ss)
                     @ [\<lparr>role = User, content = input\<rparr>, \<lparr>role = User, content = input\<rparr>]]\<rparr>,
             waiting := waiting ss @ [Waiting input (length (sent (agent ss))) False]\<rparr>)"
  by (simp add: on_line_def begin_call_run)

lemma resume_call_reply:
  assumes "prov n (sent st ! n) = Choices (Some jtext # cs)"
    and "JSON_parse (trim (strip_fences (content_or_default (Some jtext)))) = Parsed d"
    and "actions_of_js d = Some []" and "newTools_of_js d = Some []"
    and "response_of_js d = Some r"
  shows "resume_call prov eng (Waiting input n refreshed) st
       = Returned (Inr r)
           (saveHistory (st\<lparr>history := history st @ [\<lparr>role = Assistant, content = r\<rparr>]\<rparr>))"
  using assms(1,2,3)
  by (simp add: resume_call_def read_completion_def conclude_reply [OF assms(4,5)])

lemma on_answer_reply:
  assumes "k < length (waiting ss)" and "waiting ss ! k = Waiting input n refreshed"
    and "prov n (sent (agent ss) ! n) = Choices (Some jtext # cs)"
    and "JSON_parse (trim (strip_fences (content_or_default (Some jtext)))) = Parsed d"
    and "actions_of_js d = Some []" and "newTools_of_js d = Some []"
    and "response_of_js d = Some r"
  shows "on_answer prov eng k ss
       = Returned ()
           (ss\<lparr>agent := saveHistory
                 ((agent ss)\<lparr>history := history (agent ss) @ [\<lparr>role = Assistant, content = r\<rparr>]\<rparr>),
               waiting := take k (waiting ss) @ drop (Suc k) (waiting ss),
               printed := printed ss @ [r]\<rparr>)"
  using assms(1,2)
  by (simp add: on_answer_def Let_def
      resume_call_reply [of prov n "agent ss" jtext cs d r, OF assms(3,4,5,6,7)])

subsection \<open>Concrete runs\<close>

lemma plain_decision_fields:
  "actions_of_js (plain_decision r) = Some []"
  "newTools_of_js (plain_decision r) = Some []"
  "response_of_js (plain_decision r) = Some r"
  by (simp_all add: plain_decision_def actions_of_js_def newTools_of_js_def response_of_js_def
      field_def list_field_def)

lemma parse_re_a:
  "JSON_parse (trim (strip_fences (content_or_default (Some (decision_text ''re: a'')))))
     = Parsed (plain_decision ''re: a'')"
  by code_simp

lemma parse_re_b:
  "JSON_parse (trim (strip_fences (content_or_default (Some (decision_text ''re: b'')))))
     = Parsed (plain_decision ''re: b'')"
  by code_simp

lemma echo_provider_reply:
  "messages \<noteq> [] \<Longrightarrow> content (last messages) = c \<Longrightarrow>
   echo_provider n messages = Choices (Some (decision_text (''re: '' @ c)) # [])"
  by (simp add: echo_provider_def)

text \<open>
  C7, the code at the failing input. Two lines, \<^verbatim>\<open>a\<close> and \<^verbatim>\<open>b\<close>, are read before the
  provider has answered the first: the second call pushes its user turn and sends its
  prompt (the second Decision request) while the first call is suspended. Both are then
  answered, each with a Decision that has no actions and no new tools. The history, in
  memory and in the history file, holds the two user turns followed by the two
  assistant turns.
\<close>

theorem lines_interleave:
  "run_events echo_provider eng [Line ''a'', Line ''b'', Answer 0, Answer 0] (idle (fresh_state basic_tools))
     = Returned ()
         \<lparr>agent =
            \<lparr>history =
               [\<lparr>role = User, content = ''a''\<rparr>, \<lparr>role = User, content = ''b''\<rparr>,
                \<lparr>role = Assistant, content = ''re: a''\<rparr>, \<lparr>role = Assistant, content = ''re: b''\<rparr>],
             tools = basic_tools,
             files = no_files
               (historyFile \<mapsto>
                  history_text
                    [\<lparr>role = User, content = ''a''\<rparr>, \<lparr>role = User, content = ''b''\<rparr>,
                     \<lparr>role = Assistant, content = ''re: a''\<rparr>,
                     \<lparr>role = Assistant, content = ''re: b''\<rparr>]),
             sent =
               [[\<lparr>role = System, content = getSystemPrompt basic_tools\<rparr>,
                 \<lparr>role = User, content = ''a''\<rparr>, \<lparr>role = User, content = ''a''\<rparr>],
                [\<lparr>role = System, content = getSystemPrompt basic_tools\<rparr>,
                 \<lparr>role = User, content = ''a''\<rparr>, \<lparr>role = User, content = ''b''\<rparr>,
                 \<lparr>role = User, content = ''b''\<rparr>]]\<rparr>,
          waiting = [], printed = [''re: a'', ''re: b'']\<rparr>"
proof -
  let ?ua = "\<lparr>role = User, content = ''a''\<rparr>" and ?ub = "\<lparr>role = User, content = ''b''\<rparr>"
  let ?aa = "\<lparr>role = Assistant, content = ''re: a''\<rparr>"
  let ?ab = "\<lparr>role = Assistant, content = ''re: b''\<rparr>"
  let ?sys = "\<lparr>role = System, content = getSystemPrompt basic_tools\<rparr>"
  let ?sent = "[[?sys, ?ua, ?ua], [?sys, ?ua, ?ub, ?ub]]"
  let ?s1 = "\<lparr>agent = \<lparr>history = [?ua], tools = basic_tools, files = no_files, sent = [[?sys, ?ua, ?ua]]\<rparr>,
              waiting = [Waiting ''a'' 0 False], printed = []\<rparr>"
  let ?s2 = "\<lparr>agent = \<lparr>history = [?ua, ?ub], tools = basic_tools, files = no_files, sent = ?sent\<rparr>,
              waiting = [Waiting ''a'' 0 False, Waiting ''b'' 1 False], printed = []\<rparr>"
  let ?s3 = "\<lparr>agent = \<lparr>history = [?ua, ?ub, ?aa], tools = basic_tools,
                       files = no_files(historyFile \<mapsto> history_text [?ua, ?ub, ?aa]),
                       sent = ?sent\<rparr>,
              waiting = [Waiting ''b'' 1 False], printed = [''re: a'']\<rparr>"
  let ?s4 = "\<lparr>agent = \<lparr>history = [?ua, ?ub, ?aa, ?ab], tools = basic_tools,
                       files = no_files(historyFile \<mapsto> history_text [?ua, ?ub, ?aa, ?ab]),
                       sent = ?sent\<rparr>,
              waiting = [], printed = [''re: a'', ''re: b'']\<rparr>"
  have l1: "on_line ''a'' (idle (fresh_state basic_tools)) = Returned () ?s1"
    by (simp add: on_line_run idle_def fresh_state_def)
  have l2: "on_line ''b'' ?s1 = Returned () ?s2"
    by (simp add: on_line_run)
  have a1: "on_answer echo_provider eng 0 ?s2 = Returned () ?s3"
    by (subst on_answer_reply [where input = "''a''" and n = 0 and refreshed = False
          and jtext = "decision_text ''re: a''" and cs = "[]" and d = "plain_decision ''re: a''"
          and r = "''re: a''"])
      (simp_all add: echo_provider_def parse_re_a plain_decision_fields saveHistory_files)
  have a2: "on_answer echo_provider eng 0 ?s3 = Returned () ?s4"
    by (subst on_answer_reply [where input = "''b''" and n = 1 and refreshed = False
          and jtext = "decision_text ''re: b''" and cs = "[]" and d = "plain_decision ''re: b''"
          and r = "''re: b''"])
      (simp_all add: echo_provider_def parse_re_b plain_decision_fields saveHistory_files)
  show ?thesis
    by (simp only: run_events.simps event.case l1 l2 a1 a2 andThen_Returned)
qed

text \<open>
  The same two lines, the second read after the first was answered: the turns alternate.
\<close>

lemma lines_in_turn:
  "run_events echo_provider eng [Line ''a'', Answer 0, Line ''b'', Answer 0] (idle (fresh_state basic_tools))
     = Returned ()
         \<lparr>agent =
            \<lparr>history =
               [\<lparr>role = User, content = ''a''\<rparr>, \<lparr>role = Assistant, content = ''re: a''\<rparr>,
                \<lparr>role = User, content = ''b''\<rparr>, \<lparr>role = Assistant, content = ''re: b''\<rparr>],
             tools = basic_tools,
             files = no_files
               (historyFile \<mapsto>
                  history_text
                    [\<lparr>role = User, content = ''a''\<rparr>, \<lparr>role = Assistant, content = ''re: a''\<rparr>,
                     \<lparr>role = User, content = ''b''\<rparr>,
                     \<lparr>role = Assistant, content = ''re: b''\<rparr>]),
             sent =
               [[\<lparr>role = System, content = getSystemPrompt basic_tools\<rparr>,
                 \<lparr>role = User, content = ''a''\<rparr>, \<lparr>role = User, content = ''a''\<rparr>],
                [\<lparr>role = System, content = getSystemPrompt basic_tools\<rparr>,
                 \<lparr>role = User, content = ''a''\<rparr>, \<lparr>role = Assistant, content = ''re: a''\<rparr>,
                 \<lparr>role = User, content = ''b''\<rparr>, \<lparr>role = User, content = ''b''\<rparr>]]\<rparr>,
          waiting = [], printed = [''re: a'', ''re: b'']\<rparr>"
proof -
  let ?ua = "\<lparr>role = User, content = ''a''\<rparr>" and ?ub = "\<lparr>role = User, content = ''b''\<rparr>"
  let ?aa = "\<lparr>role = Assistant, content = ''re: a''\<rparr>"
  let ?ab = "\<lparr>role = Assistant, content = ''re: b''\<rparr>"
  let ?sys = "\<lparr>role = System, content = getSystemPrompt basic_tools\<rparr>"
  let ?s1 = "\<lparr>agent = \<lparr>history = [?ua], tools = basic_tools, files = no_files, sent = [[?sys, ?ua, ?ua]]\<rparr>,
              waiting = [Waiting ''a'' 0 False], printed = []\<rparr>"
  let ?s2 = "\<lparr>agent = \<lparr>history = [?ua, ?aa], tools = basic_tools,
                       files = no_files(historyFile \<mapsto> history_text [?ua, ?aa]),
                       sent = [[?sys, ?ua, ?ua]]\<rparr>,
              waiting = [], printed = [''re: a'']\<rparr>"
  let ?s3 = "\<lparr>agent = \<lparr>history = [?ua, ?aa, ?ub], tools = basic_tools,
                       files = no_files(historyFile \<mapsto> history_text [?ua, ?aa]),
                       sent = [[?sys, ?ua, ?ua], [?sys, ?ua, ?aa, ?ub, ?ub]]\<rparr>,
              waiting = [Waiting ''b'' 1 False], printed = [''re: a'']\<rparr>"
  let ?s4 = "\<lparr>agent = \<lparr>history = [?ua, ?aa, ?ub, ?ab], tools = basic_tools,
                       files = no_files(historyFile \<mapsto> history_text [?ua, ?aa, ?ub, ?ab]),
                       sent = [[?sys, ?ua, ?ua], [?sys, ?ua, ?aa, ?ub, ?ub]]\<rparr>,
              waiting = [], printed = [''re: a'', ''re: b'']\<rparr>"
  have l1: "on_line ''a'' (idle (fresh_state basic_tools)) = Returned () ?s1"
    by (simp add: on_line_run idle_def fresh_state_def)
  have a1: "on_answer echo_provider eng 0 ?s1 = Returned () ?s2"
    by (subst on_answer_reply [where input = "''a''" and n = 0 and refreshed = False
          and jtext = "decision_text ''re: a''" and cs = "[]" and d = "plain_decision ''re: a''"
          and r = "''re: a''"])
      (simp_all add: echo_provider_def parse_re_a plain_decision_fields saveHistory_files)
  have l2: "on_line ''b'' ?s2 = Returned () ?s3"
    by (simp add: on_line_run)
  have a2: "on_answer echo_provider eng 0 ?s3 = Returned () ?s4"
    by (subst on_answer_reply [where input = "''b''" and n = 1 and refreshed = False
          and jtext = "decision_text ''re: b''" and cs = "[]" and d = "plain_decision ''re: b''"
          and r = "''re: b''"])
      (simp_all add: echo_provider_def parse_re_b plain_decision_fields saveHistory_files)
  show ?thesis
    by (simp only: run_events.simps event.case l1 a1 l2 a2 andThen_Returned)
qed

text \<open>A call whose first Decision has no actions goes on with that Decision.\<close>

lemma decide_plain:
  assumes "prov (length (sent st))
             (\<lparr>role = System, content = getSystemPrompt (tools st)\<rparr> # history st
              @ [\<lparr>role = User, content = input\<rparr>, \<lparr>role = User, content = input\<rparr>])
           = Choices (Some jtext # cs)"
    and "JSON_parse (trim (strip_fences (content_or_default (Some jtext)))) = Parsed d"
    and "actions_of_js d = Some []"
  shows "decide prov eng input st
       = Returned d
           (st\<lparr>history := history st @ [\<lparr>role = User, content = input\<rparr>],
               sent := sent st
                 @ [\<lparr>role = System, content = getSystemPrompt (tools st)\<rparr> # history st
                    @ [\<lparr>role = User, content = input\<rparr>, \<lparr>role = User, content = input\<rparr>]]\<rparr>)"
proof -
  let ?st0 = "st\<lparr>history := history st @ [\<lparr>role = User, content = input\<rparr>]\<rparr>"
  let ?m = "\<lparr>role = System, content = getSystemPrompt (tools st)\<rparr> # history st
              @ [\<lparr>role = User, content = input\<rparr>, \<lparr>role = User, content = input\<rparr>]"
  have b: "build_messages (tools ?st0) (history ?st0) input None = Some ?m"
    by (simp add: build_messages_first)
  have "generateResponse prov input None ?st0 = Returned d (?st0\<lparr>sent := sent st @ [?m]\<rparr>)"
    using generateResponse_cases [OF b, of prov] assms(1,2)
    by (simp add: read_completion_def)
  with assms(3) show ?thesis
    by (simp add: decide_def)
qed

lemma decide_failure:
  assumes "prov (length (sent st))
             (\<lparr>role = System, content = getSystemPrompt (tools st)\<rparr> # history st
              @ [\<lparr>role = User, content = input\<rparr>, \<lparr>role = User, content = input\<rparr>])
           = Failure"
  shows "decide prov eng input st
       = Returned fallback_decision
           (st\<lparr>history := history st @ [\<lparr>role = User, content = input\<rparr>],
               sent := sent st
                 @ [\<lparr>role = System, content = getSystemPrompt (tools st)\<rparr> # history st
                    @ [\<lparr>role = User, content = input\<rparr>, \<lparr>role = User, content = input\<rparr>]]\<rparr>)"
proof -
  let ?st0 = "st\<lparr>history := history st @ [\<lparr>role = User, content = input\<rparr>]\<rparr>"
  let ?m = "\<lparr>role = System, content = getSystemPrompt (tools st)\<rparr> # history st
              @ [\<lparr>role = User, content = input\<rparr>, \<lparr>role = User, content = input\<rparr>]"
  have b: "build_messages (tools ?st0) (history ?st0) input None = Some ?m"
    by (simp add: build_messages_first)
  have "generateResponse prov input None ?st0
      = Returned fallback_decision (?st0\<lparr>sent := sent st @ [?m]\<rparr>)"
    using generateResponse_cases [OF b, of prov] assms
    by (simp add: read_completion_def)
  then show ?thesis
    by (simp add: decide_def fallback_fields)
qed

text \<open>A tool as written in the source is read back from the object it is.\<close>

lemma Tool_of_js_plain: "object t = None \<Longrightarrow> Tool_of_js (js_of_Tool t) = Some t"
  by (simp add: Tool_of_js_def js_of_Tool_def)

lemma parse_proposal:
  "JSON_parse (trim (strip_fences (content_or_default (Some proposal_text)))) = Parsed proposal"
  by code_simp

lemma proposal_fields:
  "actions_of_js proposal = Some []"
  "newTools_of_js proposal = Some [greet_tool]"
  by (simp_all add: proposal_def actions_of_js_def newTools_of_js_def field_def list_field_def
      js_of_Tool_def Tool_of_js_def greet_tool_def)

lemma parse_reordered:
  "JSON_parse (trim (strip_fences (content_or_default (Some reordered_text)))) = Parsed reordered"
  by code_simp

lemma reordered_fields:
  "actions_of_js reordered = Some []"
  "newTools_of_js reordered = Some [reordered_tool]"
  by (simp_all add: reordered_def actions_of_js_def newTools_of_js_def field_def list_field_def
      js_of_Tool_def Tool_of_js_def reordered_tool_def)

lemma basic_tools_plain: "list_all (\<lambda>t. object t = None) basic_tools"
  by (simp add: basic_tools_def)

lemma serializable_examples:
  "\<not> list_ex (\<lambda>t. holds_BigInt (js_of_Tool t)) (basic_tools @ [greet_tool])"
  "\<not> list_ex (\<lambda>t. holds_BigInt (js_of_Tool t)) (basic_tools @ [reordered_tool])"
  by (simp_all add: basic_tools_def greet_tool_def reordered_tool_def js_of_Tool_def)

text \<open>
  Two runs of C4. The provider proposes the tool \<open>greet_tool\<close>: the process exits with
  the tool committed and the history saved with the user's message only. The provider
  proposes the same tool with its properties in another order and a further property:
  the same happens, the tool being committed as the object it is.
\<close>

theorem newTools_restart_witness:
  "processUserInput (constant_provider (Some proposal_text)) (engine_returning JNull)
      ''add a greeting'' workspace_state
     = Exited (saveHistory
         (workspace_state
            \<lparr>history := [\<lparr>role = User, content = ''add a greeting''\<rparr>],
             sent := [[\<lparr>role = System, content = getSystemPrompt basic_tools\<rparr>,
                       \<lparr>role = User, content = ''add a greeting''\<rparr>,
                       \<lparr>role = User, content = ''add a greeting''\<rparr>]],
             tools := basic_tools @ [greet_tool],
             files := (files workspace_state)
               (mainFile \<mapsto> replace_seed (''    '' @ seed_block basic_tools @ ''\<newline>'')
                             (seed_block (basic_tools @ [greet_tool])))\<rparr>))
   \<and> processUserInput (constant_provider (Some reordered_text)) (engine_returning JNull)
      ''add a greeting'' workspace_state
     = Exited (saveHistory
         (workspace_state
            \<lparr>history := [\<lparr>role = User, content = ''add a greeting''\<rparr>],
             sent := [[\<lparr>role = System, content = getSystemPrompt basic_tools\<rparr>,
                       \<lparr>role = User, content = ''add a greeting''\<rparr>,
                       \<lparr>role = User, content = ''add a greeting''\<rparr>]],
             tools := basic_tools @ [reordered_tool],
             files := (files workspace_state)
               (mainFile \<mapsto> replace_seed (''    '' @ seed_block basic_tools @ ''\<newline>'')
                             (seed_block (basic_tools @ [reordered_tool])))\<rparr>))"
proof -
  let ?eng = "engine_returning JNull"
  have d1: "decide (constant_provider (Some proposal_text)) ?eng ''add a greeting'' workspace_state
     = Returned proposal
         (workspace_state
            \<lparr>history := history workspace_state @ [\<lparr>role = User, content = ''add a greeting''\<rparr>],
             sent := sent workspace_state
               @ [\<lparr>role = System, content = getSystemPrompt (tools workspace_state)\<rparr>
                  # history workspace_state
                  @ [\<lparr>role = User, content = ''add a greeting''\<rparr>,
                     \<lparr>role = User, content = ''add a greeting''\<rparr>]]\<rparr>)"
    by (rule decide_plain [where jtext = proposal_text and cs = "[]"])
      (simp_all add: constant_provider_def parse_proposal proposal_fields)
  have d2: "decide (constant_provider (Some reordered_text)) ?eng ''add a greeting'' workspace_state
     = Returned reordered
         (workspace_state
            \<lparr>history := history workspace_state @ [\<lparr>role = User, content = ''add a greeting''\<rparr>],
             sent := sent workspace_state
               @ [\<lparr>role = System, content = getSystemPrompt (tools workspace_state)\<rparr>
                  # history workspace_state
                  @ [\<lparr>role = User, content = ''add a greeting''\<rparr>,
                     \<lparr>role = User, content = ''add a greeting''\<rparr>]]\<rparr>)"
    by (rule decide_plain [where jtext = reordered_text and cs = "[]"])
      (simp_all add: constant_provider_def parse_reordered reordered_fields)
  have t: "tools workspace_state = basic_tools" and h: "history workspace_state = []"
    and s: "sent workspace_state = []"
    and f: "files workspace_state mainFile = Some (''    '' @ seed_block basic_tools @ ''\<newline>'')"
    by (simp_all add: workspace_state_def)
  have n1: "[greet_tool] \<noteq> []" and n2: "[reordered_tool] \<noteq> []"
    by simp_all
  from newTools_restart [OF d1 proposal_fields(2) n1] serializable_examples(1)
  have a: "processUserInput (constant_provider (Some proposal_text)) ?eng ''add a greeting''
        workspace_state
     = Exited (saveHistory
         (workspace_state
            \<lparr>history := [\<lparr>role = User, content = ''add a greeting''\<rparr>],
             sent := [[\<lparr>role = System, content = getSystemPrompt basic_tools\<rparr>,
                       \<lparr>role = User, content = ''add a greeting''\<rparr>,
                       \<lparr>role = User, content = ''add a greeting''\<rparr>]],
             tools := basic_tools @ [greet_tool],
             files := (files workspace_state)
               (mainFile \<mapsto> replace_seed (''    '' @ seed_block basic_tools @ ''\<newline>'')
                             (seed_block (basic_tools @ [greet_tool])))\<rparr>))"
    by (simp add: t h s f)
  from newTools_restart [OF d2 reordered_fields(2) n2] serializable_examples(2)
  have b: "processUserInput (constant_provider (Some reordered_text)) ?eng ''add a greeting''
        workspace_state
     = Exited (saveHistory
         (workspace_state
            \<lparr>history := [\<lparr>role = User, content = ''add a greeting''\<rparr>],
             sent := [[\<lparr>role = System, content = getSystemPrompt basic_tools\<rparr>,
                       \<lparr>role = User, content = ''add a greeting''\<rparr>,
                       \<lparr>role = User, content = ''add a greeting''\<rparr>]],
             tools := basic_tools @ [reordered_tool],
             files := (files workspace_state)
               (mainFile \<mapsto> replace_seed (''    '' @ seed_block basic_tools @ ''\<newline>'')
                             (seed_block (basic_tools @ [reordered_tool])))\<rparr>))"
    by (simp add: t h s f)
  from a b show ?thesis ..
qed

text \<open>
  C4, counterexample to the claim as stated (the rewrite and then the restart, which
  flushes the history and exits): the same proposal on an agent whose working directory
  has no file \<^verbatim>\<open>index.ts\<close>. The rewrite throws when it reads the file; the call raises
  that error, the process does not exit, and no history file is written.
\<close>

theorem newTools_without_main_file:
  "processUserInput (constant_provider (Some proposal_text)) (engine_returning JNull)
      ''add a greeting'' (fresh_state basic_tools)
     = Raised (NoSuchFile ''index.ts'')
         \<lparr>history = [\<lparr>role = User, content = ''add a greeting''\<rparr>],
          tools = basic_tools @ [greet_tool],
          files = no_files,
          sent = [[\<lparr>role = System, content = getSystemPrompt basic_tools\<rparr>,
                   \<lparr>role = User, content = ''add a greeting''\<rparr>,
                   \<lparr>role = User, content = ''add a greeting''\<rparr>]]\<rparr>
   \<and> files (final_state
         (processUserInput (constant_provider (Some proposal_text)) (engine_returning JNull)
            ''add a greeting'' (fresh_state basic_tools))) ''history.json''
       = None"
proof -
  let ?eng = "engine_returning JNull"
  let ?st = "fresh_state basic_tools"
  have d: "decide (constant_provider (Some proposal_text)) ?eng ''add a greeting'' ?st
     = Returned proposal
         (?st\<lparr>history := history ?st @ [\<lparr>role = User, content = ''add a greeting''\<rparr>],
              sent := sent ?st
                @ [\<lparr>role = System, content = getSystemPrompt (tools ?st)\<rparr> # history ?st
                   @ [\<lparr>role = User, content = ''add a greeting''\<rparr>,
                      \<lparr>role = User, content = ''add a greeting''\<rparr>]]\<rparr>)"
    by (rule decide_plain [where jtext = proposal_text and cs = "[]"])
      (simp_all add: constant_provider_def parse_proposal proposal_fields)
  have n: "[greet_tool] \<noteq> []" by simp
  have "processUserInput (constant_provider (Some proposal_text)) ?eng ''add a greeting'' ?st
      = conclude proposal
          (?st\<lparr>history := history ?st @ [\<lparr>role = User, content = ''add a greeting''\<rparr>],
               sent := sent ?st
                 @ [\<lparr>role = System, content = getSystemPrompt (tools ?st)\<rparr> # history ?st
                    @ [\<lparr>role = User, content = ''add a greeting''\<rparr>,
                       \<lparr>role = User, content = ''add a greeting''\<rparr>]]\<rparr>)"
    by (rule processUserInput_decided [OF d])
  also have "\<dots> = Raised (NoSuchFile mainFile)
         \<lparr>history = [\<lparr>role = User, content = ''add a greeting''\<rparr>],
          tools = basic_tools @ [greet_tool],
          files = no_files,
          sent = [[\<lparr>role = System, content = getSystemPrompt basic_tools\<rparr>,
                   \<lparr>role = User, content = ''add a greeting''\<rparr>,
                   \<lparr>role = User, content = ''add a greeting''\<rparr>]]\<rparr>"
    by (subst conclude_rewrite_fails [OF proposal_fields(2) n])
      (simp_all add: fresh_state_def no_files_def)
  finally have "processUserInput (constant_provider (Some proposal_text)) ?eng ''add a greeting'' ?st
      = Raised (NoSuchFile mainFile)
         \<lparr>history = [\<lparr>role = User, content = ''add a greeting''\<rparr>],
          tools = basic_tools @ [greet_tool],
          files = no_files,
          sent = [[\<lparr>role = System, content = getSystemPrompt basic_tools\<rparr>,
                   \<lparr>role = User, content = ''add a greeting''\<rparr>,
                   \<lparr>role = User, content = ''add a greeting''\<rparr>]]\<rparr>" .
  then show ?thesis
    by (simp add: mainFile_def no_files_def)
qed




text \<open>
  A run of C3: the only prompt of the call \<^verbatim>\<open>processUserInput('hello')\<close> on an empty
  history has the input twice.
\<close>

lemma first_prompt_hello:
  "sent (final_state (processUserInput failing_provider eng ''hello'' (fresh_state basic_tools)))
     = [[\<lparr>role = System, content = getSystemPrompt basic_tools\<rparr>,
         \<lparr>role = User, content = ''hello''\<rparr>, \<lparr>role = User, content = ''hello''\<rparr>]]"
proof -
  let ?st = "fresh_state basic_tools"
  have d: "decide failing_provider eng ''hello'' ?st
      = Returned fallback_decision
          (?st\<lparr>history := history ?st @ [\<lparr>role = User, content = ''hello''\<rparr>],
               sent := sent ?st
                 @ [\<lparr>role = System, content = getSystemPrompt (tools ?st)\<rparr> # history ?st
                    @ [\<lparr>role = User, content = ''hello''\<rparr>, \<lparr>role = User, content = ''hello''\<rparr>]]\<rparr>)"
    by (rule decide_failure) (simp add: failing_provider_def)
  show ?thesis
    by (simp only: processUserInput_decided [OF d] conclude_reply [OF fallback_fields(2,3)])
      (simp add: fresh_state_def)
qed

text \<open>
  A call that raises. The Decision calls the tool \<open>count_tool\<close>, which returns a BigInt:
  \<^verbatim>\<open>JSON.stringify\<close> throws on the tool results when the second prompt is built, before
  the \<^verbatim>\<open>try\<close> block of \<^verbatim>\<open>generateResponse\<close>, and \<^verbatim>\<open>processUserInput\<close> raises with the user's
  message pushed, no assistant message and nothing saved.
\<close>

lemma parse_action:
  "JSON_parse (trim (strip_fences (content_or_default (Some action_text)))) = Parsed action_decision"
  by code_simp

lemma action_fields: "actions_of_js action_decision = Some [\<lparr>tool = ''count'', args = []\<rparr>]"
  by (simp add: action_decision_def actions_of_js_def Action_of_js_def field_def list_field_def
      args_field_def)

lemma processUserInput_BigInt_result:
  "processUserInput (constant_provider (Some action_text)) (engine_returning (JBigInt 1))
      ''how many'' (fresh_state [count_tool])
     = Raised TypeError
         \<lparr>history = [\<lparr>role = User, content = ''how many''\<rparr>], tools = [count_tool],
          files = no_files,
          sent = [[\<lparr>role = System, content = getSystemPrompt [count_tool]\<rparr>,
                   \<lparr>role = User, content = ''how many''\<rparr>,
                   \<lparr>role = User, content = ''how many''\<rparr>]]\<rparr>"
proof -
  let ?st0 = "\<lparr>history = [\<lparr>role = User, content = ''how many''\<rparr>], tools = [count_tool],
          files = no_files, sent = []\<rparr>"
  let ?m = "[\<lparr>role = System, content = getSystemPrompt [count_tool]\<rparr>,
             \<lparr>role = User, content = ''how many''\<rparr>, \<lparr>role = User, content = ''how many''\<rparr>]"
  let ?st1 = "\<lparr>history = [\<lparr>role = User, content = ''how many''\<rparr>], tools = [count_tool],
          files = no_files, sent = [?m]\<rparr>"
  let ?r = "\<lparr>success = True, result = JBigInt 1, error = None\<rparr>"
  have b: "build_messages (tools ?st0) (history ?st0) ''how many'' None = Some ?m"
    by (simp add: build_messages_first)
  have g1: "generateResponse (constant_provider (Some action_text)) ''how many'' None ?st0
      = Returned action_decision ?st1"
    by (simp only: generateResponse_cases [OF b] constant_provider_def read_completion_def
        reply.case list.case parse_action parsed.case) simp
  have e: "executeTool (engine_returning (JBigInt 1)) ''count'' [] ?st1 = Returned ?r ?st1"
    by (simp add: executeTool_def count_tool_def engine_returning_def)
  have g2: "generateResponse (constant_provider (Some action_text)) ''how many''
        (Some [(''count'', ?r)]) ?st1
      = Raised TypeError ?st1"
    by (rule generateResponse_BigInt)
  show ?thesis
    by (simp add: processUserInput_def decide_def fresh_state_def g1 action_fields e
        record_assign_def g2)
qed

end
